theory Spec2Isabelle
  imports Complex_Main
begin

section \<open>JavaScript numbers\<close>

text \<open>
  The program computes with JavaScript numbers. The model keeps the three special
  values of IEEE arithmetic, since the distance editor divides by a length that can
  be zero, and takes the finite values as real numbers. The sign of zero is not
  modelled, and rounding of a finite result is modelled only where a printed digit
  depends on it.
\<close>

datatype jsnum = Fin real | PInf | NInf | NaN

fun js_add :: "jsnum \<Rightarrow> jsnum \<Rightarrow> jsnum" where
  "js_add NaN _ = NaN"
| "js_add _ NaN = NaN"
| "js_add (Fin a) (Fin b) = Fin (a + b)"
| "js_add PInf NInf = NaN"
| "js_add NInf PInf = NaN"
| "js_add PInf _ = PInf"
| "js_add _ PInf = PInf"
| "js_add NInf _ = NInf"
| "js_add _ NInf = NInf"

fun js_neg :: "jsnum \<Rightarrow> jsnum" where
  "js_neg (Fin a) = Fin (- a)"
| "js_neg PInf = NInf"
| "js_neg NInf = PInf"
| "js_neg NaN = NaN"

definition js_sub :: "jsnum \<Rightarrow> jsnum \<Rightarrow> jsnum" where
  "js_sub a b = js_add a (js_neg b)"

definition signed_inf :: "real \<Rightarrow> jsnum" where
  "signed_inf s = (if 0 < s then PInf else if s < 0 then NInf else NaN)"

fun js_mul :: "jsnum \<Rightarrow> jsnum \<Rightarrow> jsnum" where
  "js_mul NaN _ = NaN"
| "js_mul _ NaN = NaN"
| "js_mul (Fin a) (Fin b) = Fin (a * b)"
| "js_mul (Fin a) PInf = signed_inf a"
| "js_mul (Fin a) NInf = signed_inf (- a)"
| "js_mul PInf (Fin b) = signed_inf b"
| "js_mul NInf (Fin b) = signed_inf (- b)"
| "js_mul PInf PInf = PInf"
| "js_mul NInf NInf = PInf"
| "js_mul PInf NInf = NInf"
| "js_mul NInf PInf = NInf"

fun js_div :: "jsnum \<Rightarrow> jsnum \<Rightarrow> jsnum" where
  "js_div NaN _ = NaN"
| "js_div _ NaN = NaN"
| "js_div (Fin a) (Fin b) = (if b = 0 then signed_inf a else Fin (a / b))"
| "js_div (Fin a) _ = Fin 0"
| "js_div PInf (Fin b) = (if b < 0 then NInf else PInf)"
| "js_div NInf (Fin b) = (if b < 0 then PInf else NInf)"
| "js_div _ _ = NaN"

fun js_less :: "jsnum \<Rightarrow> jsnum \<Rightarrow> bool" where
  "js_less NaN _ = False"
| "js_less _ NaN = False"
| "js_less (Fin a) (Fin b) = (a < b)"
| "js_less NInf NInf = False"
| "js_less NInf _ = True"
| "js_less _ NInf = False"
| "js_less PInf _ = False"
| "js_less _ PInf = True"

definition isNaN :: "jsnum \<Rightarrow> bool" where
  "isNaN v = (v = NaN)"

subsection \<open>Rounding to a double\<close>

text \<open>
  The label of an edge prints the quotient \<open>distance / 1000\<close>, and which digits appear
  depends on how that quotient is rounded to a double. \<open>float64\<close> rounds a real to the
  nearest number with a 53-bit significand, a tie going to the even one; overflow and
  subnormal numbers are not modelled. The other arithmetic of the program is kept
  exact.
\<close>

fun floor_log2 :: "nat \<Rightarrow> nat" where
  "floor_log2 n = (if n < 2 then 0 else Suc (floor_log2 (n div 2)))"

declare floor_log2.simps [simp del]

text \<open>The exponent \<open>e\<close> with \<open>2^e \<le> |x| < 2^(e+1)\<close>, for \<open>x\<close> other than zero.\<close>

definition binExponent :: "real \<Rightarrow> int" where
  "binExponent x =
     (if 1 \<le> \<bar>x\<bar> then int (floor_log2 (nat \<lfloor>\<bar>x\<bar>\<rfloor>))
      else - int (Suc (floor_log2 (nat \<lceil>1 / \<bar>x\<bar>\<rceil> - 1))))"

definition pow2 :: "int \<Rightarrow> real" where
  "pow2 k = (if 0 \<le> k then 2 ^ nat k else 1 / 2 ^ nat (- k))"

definition roundEven :: "real \<Rightarrow> int" where
  "roundEven x =
     (let f = \<lfloor>x\<rfloor>; r = x - of_int f
      in if r < 1 / 2 then f else if 1 / 2 < r then f + 1 else if even f then f else f + 1)"

definition float64 :: "real \<Rightarrow> real" where
  "float64 x =
     (if x = 0 then 0
      else let ulp = pow2 (binExponent x - 52) in of_int (roundEven (x / ulp)) * ulp)"

text \<open>Division as the label computes it: the quotient, rounded to a double.\<close>

definition js_div64 :: "jsnum \<Rightarrow> jsnum \<Rightarrow> jsnum" where
  "js_div64 a b = (case js_div a b of Fin q \<Rightarrow> Fin (float64 q) | v \<Rightarrow> v)"

subsection \<open>Printing numbers\<close>

definition digit_char :: "nat \<Rightarrow> char" where
  "digit_char d = ''0123456789'' ! (d mod 10)"

fun digits :: "nat \<Rightarrow> string" where
  "digits n = (if n < 10 then [digit_char n] else digits (n div 10) @ [digit_char (n mod 10)])"

declare digits.simps [simp del]

text \<open>
  From \<open>10^21\<close> up JavaScript prints a number in exponent notation, with the fewest
  digits \<open>s\<close> (at most 17) for which \<open>s\<close> times a power of ten still rounds to the
  number. \<open>shortest\<close> looks for them from one digit on; \<open>n\<close> is the number of digits
  of the integer part.
\<close>

function shortest :: "real \<Rightarrow> nat \<Rightarrow> nat \<Rightarrow> nat \<times> nat" where
  "shortest x n k =
     (let s = nat \<lfloor>x / 10 ^ (n - k) + 1 / 2\<rfloor>
      in if 17 \<le> k \<or> float64 (real s * 10 ^ (n - k)) = float64 x then (s, k)
         else shortest x n (Suc k))"
  by pat_completeness auto
termination
  by (relation "measure (\<lambda>(x, n, k). 17 - k)") auto

declare shortest.simps [simp del]

definition exponentForm :: "real \<Rightarrow> string" where
  "exponentForm x =
     (let n = length (digits (nat \<lfloor>x\<rfloor>));
          (s, k) = shortest x n 1;
          (m, e) = (if k < length (digits s) then (''1'', n) else (digits s, n - 1))
      in (if length m = 1 then m else take 1 m @ ''.'' @ drop 1 m) @ ''e+'' @ digits e)"

text \<open>The decimal form of a magnitude that is a whole number.\<close>

definition integerString :: "real \<Rightarrow> string" where
  "integerString x = (if 10 ^ 21 \<le> x then exponentForm x else digits (nat \<lfloor>x\<rfloor>))"

text \<open>\<open>Math.round\<close>: the nearest integer, a tie going up.\<close>

fun Math_round :: "jsnum \<Rightarrow> jsnum" where
  "Math_round (Fin x) = Fin (of_int \<lfloor>x + 1 / 2\<rfloor>)"
| "Math_round v = v"

text \<open>
  A number inside a template literal. The program only prints the results of
  \<open>Math.round\<close> this way, so the finite case is the form of a whole number.
\<close>

fun ToString :: "jsnum \<Rightarrow> string" where
  "ToString NaN = ''NaN''"
| "ToString PInf = ''Infinity''"
| "ToString NInf = ''-Infinity''"
| "ToString (Fin x) = (if x < 0 then ''-'' @ integerString \<bar>x\<bar> else integerString \<bar>x\<bar>)"

text \<open>
  \<open>toFixed(2)\<close>: below \<open>10^21\<close> the integer \<open>n\<close> nearest to a hundred times the
  magnitude (the larger one at a tie), printed with a point before its last two
  digits and padded with zeros to three digits; from \<open>10^21\<close> up the exponent notation.
\<close>

definition toFixed2 :: "jsnum \<Rightarrow> string" where
  "toFixed2 v =
     (case v of
        NaN \<Rightarrow> ''NaN''
      | PInf \<Rightarrow> ''Infinity''
      | NInf \<Rightarrow> ''-Infinity''
      | Fin x \<Rightarrow>
          (let s = (if x < 0 then ''-'' else [])
           in if 10 ^ 21 \<le> \<bar>x\<bar> then s @ exponentForm \<bar>x\<bar>
              else
                let n = nat \<lfloor>\<bar>x\<bar> * 100 + 1 / 2\<rfloor>;
                    m = digits n;
                    m' = (if length m \<le> 2 then replicate (3 - length m) (CHR ''0'') @ m else m);
                    k = length m'
                in s @ take (k - 2) m' @ ''.'' @ drop (k - 2) m'))"

text \<open>The text of an edge's distance label (\<open>distanceText\<close> in \<open>updateEdgeMarkers\<close>).\<close>

definition distanceText :: "jsnum \<Rightarrow> string" where
  "distanceText distance =
     (if js_less distance (Fin 1000)
      then ToString (Math_round distance) @ ''m''
      else toFixed2 (js_div64 distance (Fin 1000)) @ ''km'')"

section \<open>Geo-points, markers and the map surface\<close>

text \<open>
  A \<open>google.maps.LatLng\<close> is taken as the pair of its coordinates; the constructor's
  own normalisation of coordinates outside the valid range belongs to the map library
  and is not modelled. Every object the program puts on the map (marker, overlay,
  polyline, polygon) has an identity, a number drawn from \<open>nextId\<close>; \<open>onMap\<close> is the set
  of objects whose map is set, so \<open>setMap(null)\<close> removes the object from it.
\<close>

record LatLng =
  lat :: jsnum
  lng :: jsnum

record Marker =
  marker_id :: nat
  position :: LatLng

text \<open>
  A distance label. Besides the constructor's arguments the record keeps what the
  closure \<open>handleDistanceChange\<close> handed to the constructor has captured: the edge
  index \<open>i\<close> and the two endpoints \<open>p1\<close>, \<open>p2\<close> read when the label was built.
\<close>

record DistanceOverlay =
  ov_id :: nat
  ov_position :: LatLng
  ov_content :: string
  ov_angle :: jsnum
  ov_edge :: nat
  ov_p1 :: LatLng
  ov_p2 :: LatLng

text \<open>
  The draggable handle at an edge's midpoint, with the captured edge index, the
  closure variable \<open>dragMarker\<close> and the properties its listeners store on it.
\<close>

record MidpointMarker =
  mm_id :: nat
  mm_position :: LatLng
  mm_opacity :: nat
  mm_edge :: nat
  mm_dragMarker :: "Marker option"
  mm_originalPosition :: "LatLng option"
  mm_originalVertices :: "LatLng list option"
  mm_tempVertexIndex :: "nat option"

datatype EdgeMarker = Overlay DistanceOverlay | Handle MidpointMarker

fun edge_id :: "EdgeMarker \<Rightarrow> nat" where
  "edge_id (Overlay ov) = ov_id ov"
| "edge_id (Handle m) = mm_id m"

fun edge_position :: "EdgeMarker \<Rightarrow> LatLng" where
  "edge_position (Overlay ov) = ov_position ov"
| "edge_position (Handle m) = mm_position m"

fun isHandle :: "EdgeMarker \<Rightarrow> bool" where
  "isHandle (Handle _) = True"
| "isHandle (Overlay _) = False"

fun isOverlay :: "EdgeMarker \<Rightarrow> bool" where
  "isOverlay (Overlay _) = True"
| "isOverlay (Handle _) = False"

record Polyline =
  pl_id :: nat
  pl_path :: "LatLng list"

text \<open>
  A marker of a finished polygon; \<open>pm_index\<close> is the index its drag listener has
  captured. A finished polygon is its path (an \<open>MVCArray\<close>) and the two marker lists
  the program stores on it under \<open>'vertexMarkers'\<close> and \<open>'edgeMarkers'\<close>.
\<close>

record PolygonMarker =
  pm_id :: nat
  pm_position :: LatLng
  pm_index :: nat

record Polygon =
  pg_path :: "LatLng list"
  pg_vertexMarkers :: "PolygonMarker list"
  pg_edgeMarkers :: "EdgeMarker list"

text \<open>
  The state: the closure variables of \<open>setupAutoClosePolygon\<close> (the drawing session),
  the component's React state, the polygon objects by identity (the React state
  \<open>fieldPolygons\<close> holds references, so a change of a polygon's path does not change
  it), and the values the host has received through \<open>onAreaUpdate\<close>.
\<close>

record state =
  nextId :: nat
  onMap :: "nat set"
  mapListeners :: "nat set"
  tempPolyline :: "Polyline option"
  vertices :: "LatLng list"
  vertexMarkers :: "Marker list"
  edgeMarkers :: "EdgeMarker list"
  mapClickListener :: "nat option"
  mapDblClickListener :: "nat option"
  fieldPolygons :: "nat list"
  isDrawingMode :: bool
  polygons :: "nat \<rightharpoonup> Polygon"
  onAreaUpdate :: bool
  areaUpdates :: "jsnum list"

text \<open>
  A handler either returns or throws; the state a throwing handler leaves behind is
  not kept. \<open>SparseWrite\<close> stands for an index write beyond the end of an array:
  JavaScript would extend the array and leave \<open>undefined\<close> elements, which the lists
  of this model cannot hold, so the run is cut there.
\<close>

datatype js_error = TypeError | SparseWrite

definition array_set :: "'a list \<Rightarrow> nat \<Rightarrow> 'a \<Rightarrow> js_error + 'a list" where
  "array_set xs i v =
     (if i < length xs then Inr (xs[i := v])
      else if i = length xs then Inr (xs @ [v])
      else Inl SparseWrite)"

text \<open>\<open>Array.prototype.splice(i, 0, v)\<close>: an index beyond the end inserts at the end.\<close>

definition splice_in :: "'a list \<Rightarrow> nat \<Rightarrow> 'a \<Rightarrow> 'a list" where
  "splice_in xs i v = take i xs @ [v] @ drop i xs"

section \<open>The drawing session\<close>

text \<open>The path shown by the temporary polyline: closed once there are three vertices.\<close>

definition closedPath :: "LatLng list \<Rightarrow> LatLng list" where
  "closedPath vs = (if 3 \<le> length vs then vs @ [vs ! 0] else vs)"

definition setPath :: "LatLng list \<Rightarrow> state \<Rightarrow> state" where
  "setPath path st =
     st\<lparr>tempPolyline := map_option (\<lambda>pl. pl\<lparr>pl_path := path\<rparr>) (tempPolyline st)\<rparr>"

text \<open>
  One round of the loop in \<open>updateEdgeMarkers\<close>, for edge \<open>i\<close>. The geodesic distance
  \<open>google.maps.geometry.spherical.computeDistanceBetween\<close> is the map library's and
  is a parameter. The source computes an angle with \<open>Math.atan2\<close> and then overwrites
  it with \<open>0\<close> before use; the model has the value that reaches the constructor.
\<close>

definition edgeMarkerStep :: "(LatLng \<Rightarrow> LatLng \<Rightarrow> jsnum) \<Rightarrow> nat \<Rightarrow> state \<Rightarrow> state" where
  "edgeMarkerStep computeDistanceBetween i st =
     (let p1 = vertices st ! i;
          p2 = vertices st ! ((i + 1) mod length (vertices st));
          midLat = js_div (js_add (lat p1) (lat p2)) (Fin 2);
          midLng = js_div (js_add (lng p1) (lng p2)) (Fin 2);
          midpoint = \<lparr>lat = midLat, lng = midLng\<rparr>;
          distance = computeDistanceBetween p1 p2;
          angle = Fin 0;
          overlay = \<lparr>ov_id = nextId st, ov_position = midpoint,
                     ov_content = distanceText distance, ov_angle = angle,
                     ov_edge = i, ov_p1 = p1, ov_p2 = p2\<rparr>;
          marker = \<lparr>mm_id = nextId st + 1, mm_position = midpoint, mm_opacity = 1,
                    mm_edge = i, mm_dragMarker = None, mm_originalPosition = None,
                    mm_originalVertices = None, mm_tempVertexIndex = None\<rparr>
      in st\<lparr>nextId := nextId st + 2,
            onMap := insert (nextId st + 1) (insert (nextId st) (onMap st)),
            edgeMarkers := edgeMarkers st @ [Overlay overlay, Handle marker]\<rparr>)"

definition removeEdgeMarkers :: "state \<Rightarrow> state" where
  "removeEdgeMarkers st =
     st\<lparr>onMap := onMap st - edge_id ` set (edgeMarkers st), edgeMarkers := []\<rparr>"

text \<open>
  \<open>updateEdgeMarkers\<close>: the loop runs over the indices of \<open>vertices\<close>, which its body
  does not change.
\<close>

definition updateEdgeMarkers :: "(LatLng \<Rightarrow> LatLng \<Rightarrow> jsnum) \<Rightarrow> state \<Rightarrow> state" where
  "updateEdgeMarkers computeDistanceBetween st =
     (let st1 = removeEdgeMarkers st
      in if 2 \<le> length (vertices st1)
         then fold (edgeMarkerStep computeDistanceBetween) [0..<length (vertices st1)] st1
         else st1)"

text \<open>\<open>startDrawing\<close>: a fresh polyline, empty lists, the two map listeners.\<close>

definition startDrawing :: "state \<Rightarrow> state" where
  "startDrawing st =
     st\<lparr>nextId := nextId st + 3,
        onMap := insert (nextId st) (onMap st),
        mapListeners := insert (nextId st + 2) (insert (nextId st + 1) (mapListeners st)),
        tempPolyline := Some \<lparr>pl_id = nextId st, pl_path = []\<rparr>,
        vertices := [],
        vertexMarkers := [],
        edgeMarkers := [],
        mapClickListener := Some (nextId st + 1),
        mapDblClickListener := Some (nextId st + 2)\<rparr>"

text \<open>The map's click listener: append the vertex, give it a marker, redraw.\<close>

definition mapClick :: "(LatLng \<Rightarrow> LatLng \<Rightarrow> jsnum) \<Rightarrow> LatLng option \<Rightarrow> state \<Rightarrow> state" where
  "mapClick computeDistanceBetween e st =
     (case e of
        None \<Rightarrow> st
      | Some latLng \<Rightarrow>
          if tempPolyline st = None then st
          else
            let vs = vertices st @ [latLng];
                marker = \<lparr>marker_id = nextId st, position = latLng\<rparr>;
                st1 = st\<lparr>nextId := nextId st + 1,
                         onMap := insert (nextId st) (onMap st),
                         vertices := vs,
                         vertexMarkers := vertexMarkers st @ [marker]\<rparr>
            in updateEdgeMarkers computeDistanceBetween (setPath (closedPath vs) st1))"

text \<open>
  The drag listener of the vertex marker that stands at place \<open>k\<close> of \<open>vertexMarkers\<close>
  (so \<open>indexOf\<close> finds \<open>k\<close>; a marker no longer in the list finds \<open>-1\<close> and nothing
  happens). The surface has moved the marker itself. The marker's drag-start and
  drag-end listeners only swap its icon for a red pin and back, and are left out.
\<close>

definition vertexMarkerDrag ::
  "(LatLng \<Rightarrow> LatLng \<Rightarrow> jsnum) \<Rightarrow> nat \<Rightarrow> LatLng option \<Rightarrow> state \<Rightarrow> js_error + state" where
  "vertexMarkerDrag computeDistanceBetween k e st =
     (case e of
        None \<Rightarrow> Inr st
      | Some latLng \<Rightarrow>
          if \<not> k < length (vertexMarkers st) then Inr st
          else
            (case array_set (vertices st) k latLng of
               Inl err \<Rightarrow> Inl err
             | Inr vs \<Rightarrow>
                 let st1 = st\<lparr>vertices := vs,
                              vertexMarkers :=
                                (vertexMarkers st)[k := (vertexMarkers st ! k)\<lparr>position := latLng\<rparr>]\<rparr>
                 in Inr (updateEdgeMarkers computeDistanceBetween (setPath (closedPath vs) st1))))"


subsection \<open>Dragging a midpoint handle\<close>

text \<open>
  The three listeners of the handle that stands at place \<open>k\<close> of \<open>edgeMarkers\<close>. An
  event for a place that holds no handle does not occur and is the identity. During
  the drag the surface moves the handle itself to the pointer.
\<close>

definition handleAt :: "state \<Rightarrow> nat \<Rightarrow> MidpointMarker option" where
  "handleAt st k =
     (if k < length (edgeMarkers st)
      then (case edgeMarkers st ! k of Handle m \<Rightarrow> Some m | Overlay _ \<Rightarrow> None)
      else None)"

definition setHandle :: "nat \<Rightarrow> MidpointMarker \<Rightarrow> state \<Rightarrow> state" where
  "setHandle k m st = st\<lparr>edgeMarkers := (edgeMarkers st)[k := Handle m]\<rparr>"

definition midpointDragStart :: "nat \<Rightarrow> state \<Rightarrow> state" where
  "midpointDragStart k st =
     (case handleAt st k of
        None \<Rightarrow> st
      | Some marker \<Rightarrow>
          let position = mm_position marker;
              dragMarker = \<lparr>marker_id = nextId st, position = position\<rparr>;
              tempVertices = splice_in (vertices st) (mm_edge marker + 1) position;
              marker' = marker\<lparr>mm_dragMarker := Some dragMarker,
                               mm_opacity := 0,
                               mm_originalPosition := Some position,
                               mm_originalVertices := Some (vertices st),
                               mm_tempVertexIndex := Some (mm_edge marker + 1)\<rparr>
          in setHandle k marker'
               (st\<lparr>nextId := nextId st + 1,
                   onMap := insert (nextId st) (onMap st),
                   vertices := tempVertices\<rparr>))"

definition midpointDrag :: "nat \<Rightarrow> LatLng option \<Rightarrow> state \<Rightarrow> js_error + state" where
  "midpointDrag k e st =
     (case handleAt st k of
        None \<Rightarrow> Inr st
      | Some marker \<Rightarrow>
          (case e of
             None \<Rightarrow> Inr st
           | Some latLng \<Rightarrow>
               if tempPolyline st = None then Inr st
               else
                 let marker' = marker\<lparr>mm_position := latLng,
                                       mm_dragMarker :=
                                         map_option (\<lambda>d. d\<lparr>position := latLng\<rparr>) (mm_dragMarker marker)\<rparr>;
                     st1 = setHandle k marker' st
                 in (case mm_tempVertexIndex marker of
                       None \<Rightarrow> Inr st1
                     | Some tempVertexIndex \<Rightarrow>
                         (case array_set (vertices st1) tempVertexIndex latLng of
                            Inl err \<Rightarrow> Inl err
                          | Inr vs \<Rightarrow> Inr (setPath (closedPath vs) (st1\<lparr>vertices := vs\<rparr>))))))"

definition midpointDragEnd ::
  "(LatLng \<Rightarrow> LatLng \<Rightarrow> jsnum) \<Rightarrow> nat \<Rightarrow> LatLng option \<Rightarrow> state \<Rightarrow> js_error + state" where
  "midpointDragEnd computeDistanceBetween k e st =
     (case handleAt st k of
        None \<Rightarrow> Inr st
      | Some marker \<Rightarrow>
          let st1 = setHandle k (marker\<lparr>mm_dragMarker := None, mm_opacity := 1\<rparr>)
                      (st\<lparr>onMap := (case mm_dragMarker marker of
                                       None \<Rightarrow> onMap st
                                     | Some d \<Rightarrow> onMap st - {marker_id d})\<rparr>)
          in (case e of
                None \<Rightarrow> Inr st1
              | Some latLng \<Rightarrow>
                  (case mm_tempVertexIndex marker of
                     None \<Rightarrow> Inr st1
                   | Some tempVertexIndex \<Rightarrow>
                       (case array_set (vertices st1) tempVertexIndex latLng of
                          Inl err \<Rightarrow> Inl err
                        | Inr vs \<Rightarrow>
                            let vertexMarker = \<lparr>marker_id = nextId st1, position = latLng\<rparr>;
                                st2 = st1\<lparr>nextId := nextId st1 + 1,
                                         onMap := insert (nextId st1) (onMap st1),
                                         vertices := vs,
                                         vertexMarkers :=
                                           splice_in (vertexMarkers st1) tempVertexIndex vertexMarker\<rparr>;
                                st3 = removeEdgeMarkers (setPath (closedPath vs) st2);
                                st4 = st3\<lparr>onMap := onMap st3 - {mm_id marker}\<rparr>
                            in Inr (updateEdgeMarkers computeDistanceBetween st4)))))"

subsection \<open>Editing a distance label\<close>

text \<open>
  What \<open>onAdd\<close> builds for a label: the unit read off the label text, the step of the
  number input and the CSS transform of the label's box. The number the input shows
  at first is not modelled.
\<close>

fun str_includes :: "string \<Rightarrow> string \<Rightarrow> bool" where
  "str_includes [] sub = (sub = [])"
| "str_includes (c # cs) sub = (take (length sub) (c # cs) = sub \<or> str_includes cs sub)"

record OverlayDiv =
  div_unit :: string
  div_step :: string
  div_transform :: string

definition onAdd :: "DistanceOverlay \<Rightarrow> OverlayDiv" where
  "onAdd ov =
     (let unit = (if str_includes (ov_content ov) ''km'' then ''km'' else ''m'')
      in \<lparr>div_unit = unit,
          div_step = (if unit = ''km'' then ''0.01'' else ''1''),
          div_transform = ''translate(-50%, -150%)''\<rparr>)"

text \<open>
  The input's change listener, given the number \<open>parseFloat\<close> has read: the length in
  meters handed to \<open>onDistanceChange\<close>, or nothing when the text was not a number.
\<close>

definition inputChange :: "DistanceOverlay \<Rightarrow> jsnum \<Rightarrow> jsnum option" where
  "inputChange ov newValue =
     (if \<not> isNaN newValue
      then Some (if div_unit (onAdd ov) = ''km'' then js_mul newValue (Fin 1000) else newValue)
      else None)"

definition overlayAt :: "state \<Rightarrow> nat \<Rightarrow> DistanceOverlay option" where
  "overlayAt st k =
     (if k < length (edgeMarkers st)
      then (case edgeMarkers st ! k of Overlay ov \<Rightarrow> Some ov | Handle _ \<Rightarrow> None)
      else None)"

text \<open>
  \<open>handleDistanceChange\<close> of the label at place \<open>k\<close> of \<open>edgeMarkers\<close>, with the
  endpoints and the index the closure captured. With an empty \<open>vertices\<close> the index
  \<open>(i + 1) % 0\<close> is \<open>NaN\<close>: the assignment leaves the array as it is and the marker
  lookup yields \<open>undefined\<close>, whose \<open>setPosition\<close> throws; so does a missing marker.
\<close>

definition handleDistanceChange ::
  "(LatLng \<Rightarrow> LatLng \<Rightarrow> jsnum) \<Rightarrow> nat \<Rightarrow> jsnum \<Rightarrow> state \<Rightarrow> js_error + state" where
  "handleDistanceChange computeDistanceBetween k newDistance st =
     (case overlayAt st k of
        None \<Rightarrow> Inr st
      | Some ov \<Rightarrow>
          let p1 = ov_p1 ov;
              p2 = ov_p2 ov;
              currentDistance = computeDistanceBetween p1 p2;
              ratio = js_div newDistance currentDistance;
              newPosition =
                \<lparr>lat = js_add (lat p1) (js_mul (js_sub (lat p2) (lat p1)) ratio),
                 lng = js_add (lng p1) (js_mul (js_sub (lng p2) (lng p1)) ratio)\<rparr>
          in if vertices st = [] then Inl TypeError
             else
               let j = (ov_edge ov + 1) mod length (vertices st);
                   vs = (vertices st)[j := newPosition]
               in if \<not> j < length (vertexMarkers st) then Inl TypeError
                  else
                    let st1 = st\<lparr>vertices := vs,
                                 vertexMarkers :=
                                   (vertexMarkers st)[j := (vertexMarkers st ! j)\<lparr>position := newPosition\<rparr>]\<rparr>
                    in Inr (updateEdgeMarkers computeDistanceBetween (setPath (closedPath vs) st1)))"

text \<open>A change of the input of the label at place \<open>k\<close>, from the typed number on.\<close>

definition submitDistance ::
  "(LatLng \<Rightarrow> LatLng \<Rightarrow> jsnum) \<Rightarrow> nat \<Rightarrow> jsnum \<Rightarrow> state \<Rightarrow> js_error + state" where
  "submitDistance computeDistanceBetween k newValue st =
     (case overlayAt st k of
        None \<Rightarrow> Inr st
      | Some ov \<Rightarrow>
          (case inputChange ov newValue of
             None \<Rightarrow> Inr st
           | Some meters \<Rightarrow> handleDistanceChange computeDistanceBetween k meters st))"


section \<open>Finished polygons\<close>

definition getPath :: "state \<Rightarrow> nat \<Rightarrow> LatLng list" where
  "getPath st pid = (case polygons st pid of Some pg \<Rightarrow> pg_path pg | None \<Rightarrow> [])"

text \<open>
  \<open>addEdgeMarkers\<close> of \<open>onPolygonComplete\<close>: the old list is taken off the map; the
  loop over the path only reads the two endpoints of each edge and adds nothing to
  the new list, which stays empty.
\<close>

definition addEdgeMarkers :: "nat \<Rightarrow> state \<Rightarrow> state" where
  "addEdgeMarkers pid st =
     (case polygons st pid of
        None \<Rightarrow> st
      | Some pg \<Rightarrow>
          st\<lparr>onMap := onMap st - edge_id ` set (pg_edgeMarkers pg),
             polygons := (polygons st)(pid \<mapsto> pg\<lparr>pg_edgeMarkers := []\<rparr>)\<rparr>)"

text \<open>
  \<open>onPolygonComplete\<close>: register the polygon, leave drawing mode, give every vertex of
  the path a marker, then \<open>addEdgeMarkers\<close>.
\<close>

definition onPolygonComplete :: "nat \<Rightarrow> state \<Rightarrow> state" where
  "onPolygonComplete pid st =
     (case polygons st pid of
        None \<Rightarrow> st
      | Some pg \<Rightarrow>
          let path = pg_path pg;
              vertexMarkers =
                map (\<lambda>i. \<lparr>pm_id = nextId st + i, pm_position = path ! i, pm_index = i\<rparr>)
                  [0..<length path];
              st1 = st\<lparr>fieldPolygons := fieldPolygons st @ [pid],
                       isDrawingMode := False,
                       nextId := nextId st + length path,
                       onMap := onMap st \<union> {nextId st..<nextId st + length path},
                       polygons := (polygons st)(pid \<mapsto> pg\<lparr>pg_vertexMarkers := vertexMarkers\<rparr>)\<rparr>
          in addEdgeMarkers pid st1)"

text \<open>
  The map's double-click listener: with three vertices or more, build the polygon
  from \<open>vertices\<close>, take the polyline, the markers and the two listeners away, and call
  \<open>onPolygonComplete\<close>; otherwise nothing.
\<close>

definition removeListener :: "nat option \<Rightarrow> nat set \<Rightarrow> nat set" where
  "removeListener l ls = (case l of None \<Rightarrow> ls | Some x \<Rightarrow> ls - {x})"

definition mapDblClick :: "state \<Rightarrow> state" where
  "mapDblClick st =
     (if 3 \<le> length (vertices st)
      then
        let polygon = nextId st;
            st1 = st\<lparr>nextId := nextId st + 1,
                     onMap := insert polygon (onMap st),
                     polygons := (polygons st)(polygon \<mapsto>
                       \<lparr>pg_path = vertices st, pg_vertexMarkers = [], pg_edgeMarkers = []\<rparr>)\<rparr>;
            st2 = st1\<lparr>onMap := (case tempPolyline st1 of
                                   None \<Rightarrow> onMap st1
                                 | Some pl \<Rightarrow> onMap st1 - {pl_id pl}),
                      tempPolyline := None\<rparr>;
            st3 = st2\<lparr>onMap := onMap st2 - marker_id ` set (vertexMarkers st2)
                                - edge_id ` set (edgeMarkers st2),
                      vertexMarkers := [],
                      edgeMarkers := []\<rparr>;
            st4 = st3\<lparr>mapListeners := removeListener (mapDblClickListener st3)
                                       (removeListener (mapClickListener st3) (mapListeners st3)),
                      mapClickListener := None,
                      mapDblClickListener := None\<rparr>
        in onPolygonComplete polygon st4
      else st)"

text \<open>
  \<open>MVCArray.insertAt\<close> on a polygon's path followed by the program's \<open>insert_at\<close>
  listener, which gives the new vertex a marker unless \<open>getAt\<close> finds nothing there.
\<close>

definition pathInsertAt :: "nat \<Rightarrow> nat \<Rightarrow> LatLng \<Rightarrow> state \<Rightarrow> state" where
  "pathInsertAt pid index latLng st =
     (case polygons st pid of
        None \<Rightarrow> st
      | Some pg \<Rightarrow>
          let path = splice_in (pg_path pg) index latLng;
              pg1 = pg\<lparr>pg_path := path\<rparr>
          in if \<not> index < length path
             then st\<lparr>polygons := (polygons st)(pid \<mapsto> pg1)\<rparr>
             else
               let marker = \<lparr>pm_id = nextId st, pm_position = path ! index, pm_index = index\<rparr>;
                   markers = splice_in (pg_vertexMarkers pg1) index marker
               in st\<lparr>nextId := nextId st + 1,
                     onMap := insert (nextId st) (onMap st),
                     polygons := (polygons st)(pid \<mapsto> pg1\<lparr>pg_vertexMarkers := markers\<rparr>)\<rparr>)"

text \<open>
  The click handler of the polygon rendered for \<open>fieldPolygons[k]\<close>: a click that
  carries an edge, no vertex and a geo-point inserts the point after that edge.
\<close>

definition polygonClick :: "nat \<Rightarrow> nat option \<Rightarrow> nat option \<Rightarrow> LatLng option \<Rightarrow> state \<Rightarrow> state" where
  "polygonClick k edge vertex latLng st =
     (if \<not> k < length (fieldPolygons st) then st
      else
        (case (edge, vertex, latLng) of
           (Some e, None, Some p) \<Rightarrow> pathInsertAt (fieldPolygons st ! k) (e + 1) p st
         | _ \<Rightarrow> st))"

text \<open>
  The drag listener of the marker at place \<open>k\<close> of a polygon's vertex markers:
  \<open>path.setAt\<close> at the captured index, then \<open>addEdgeMarkers\<close>. \<open>setAt\<close> overwrites within
  the path, is an \<open>insertAt\<close> at its end, and beyond would pad with \<open>undefined\<close>.
\<close>

definition polygonMarkerDrag :: "nat \<Rightarrow> nat \<Rightarrow> LatLng option \<Rightarrow> state \<Rightarrow> js_error + state" where
  "polygonMarkerDrag pid k e st =
     (case polygons st pid of
        None \<Rightarrow> Inr st
      | Some pg \<Rightarrow>
          if \<not> k < length (pg_vertexMarkers pg) then Inr st
          else
            (case e of
               None \<Rightarrow> Inr st
             | Some latLng \<Rightarrow>
                 let i = pm_index (pg_vertexMarkers pg ! k);
                     moved = (pg_vertexMarkers pg)[k := (pg_vertexMarkers pg ! k)\<lparr>pm_position := latLng\<rparr>];
                     pg1 = pg\<lparr>pg_vertexMarkers := moved\<rparr>;
                     st1 = st\<lparr>polygons := (polygons st)(pid \<mapsto> pg1)\<rparr>
                 in if i < length (pg_path pg)
                    then Inr (addEdgeMarkers pid
                           (st1\<lparr>polygons := (polygons st)(pid \<mapsto> pg1\<lparr>pg_path := (pg_path pg)[i := latLng]\<rparr>)\<rparr>))
                    else if i = length (pg_path pg)
                    then Inr (addEdgeMarkers pid (pathInsertAt pid i latLng st1))
                    else Inl SparseWrite))"

section \<open>Reporting the area\<close>

text \<open>
  The effect that reports the total area, with the library's \<open>computeArea\<close> as a
  parameter, and what React does after a handler has run: the effect runs again when
  the array \<open>fieldPolygons\<close> has been replaced (every \<open>setFieldPolygons\<close> of the program
  makes a longer array), and \<open>startDrawing\<close> runs when drawing mode has been switched
  on. Drawing mode is switched off by \<open>onPolygonComplete\<close> only, after the double-click
  listener has taken the session's objects away, so the cleanup that React runs then
  finds nothing to remove and is left out.
\<close>

definition totalArea :: "(LatLng list \<Rightarrow> jsnum) \<Rightarrow> state \<Rightarrow> jsnum" where
  "totalArea computeArea st =
     foldl (\<lambda>sum polygon. js_add sum (js_div (computeArea (getPath st polygon)) (Fin 10000)))
       (Fin 0) (fieldPolygons st)"

definition areaEffect :: "(LatLng list \<Rightarrow> jsnum) \<Rightarrow> state \<Rightarrow> state" where
  "areaEffect computeArea st =
     (if onAreaUpdate st \<and> 0 < length (fieldPolygons st)
      then st\<lparr>areaUpdates := areaUpdates st @ [totalArea computeArea st]\<rparr>
      else st)"

definition rerender :: "(LatLng list \<Rightarrow> jsnum) \<Rightarrow> state \<Rightarrow> state \<Rightarrow> state" where
  "rerender computeArea before after =
     (let st1 = (if isDrawingMode after \<and> \<not> isDrawingMode before then startDrawing after else after)
      in if fieldPolygons after \<noteq> fieldPolygons before then areaEffect computeArea st1 else st1)"

text \<open>The create menu's option \<open>field\<close>.\<close>

definition handleCreateField :: "state \<Rightarrow> state" where
  "handleCreateField st = st\<lparr>isDrawingMode := True\<rparr>"

text \<open>The component as mounted: nothing on the map, no polygon, not drawing.\<close>

definition initial :: "bool \<Rightarrow> state" where
  "initial callback =
     \<lparr>nextId = 0, onMap = {}, mapListeners = {}, tempPolyline = None, vertices = [],
      vertexMarkers = [], edgeMarkers = [], mapClickListener = None,
      mapDblClickListener = None, fieldPolygons = [], isDrawingMode = False,
      polygons = Map.empty, onAreaUpdate = callback, areaUpdates = []\<rparr>"

section \<open>Notions used in the properties\<close>

text \<open>
  The two entries \<open>updateEdgeMarkers\<close> builds for edge \<open>i\<close> of the vertex list \<open>vs\<close>, as
  a function of the identity \<open>base\<close> the rebuild started from.
\<close>

definition edgePair ::
  "(LatLng \<Rightarrow> LatLng \<Rightarrow> jsnum) \<Rightarrow> LatLng list \<Rightarrow> nat \<Rightarrow> nat \<Rightarrow> EdgeMarker list" where
  "edgePair d vs base i =
     (let p1 = vs ! i;
          p2 = vs ! ((i + 1) mod length vs);
          midpoint = \<lparr>lat = js_div (js_add (lat p1) (lat p2)) (Fin 2),
                      lng = js_div (js_add (lng p1) (lng p2)) (Fin 2)\<rparr>
      in [Overlay \<lparr>ov_id = base + 2 * i, ov_position = midpoint,
                   ov_content = distanceText (d p1 p2), ov_angle = Fin 0,
                   ov_edge = i, ov_p1 = p1, ov_p2 = p2\<rparr>,
          Handle \<lparr>mm_id = base + 2 * i + 1, mm_position = midpoint, mm_opacity = 1,
                  mm_edge = i, mm_dragMarker = None, mm_originalPosition = None,
                  mm_originalVertices = None, mm_tempVertexIndex = None\<rparr>])"

text \<open>
  The number of edges as the specification counts them (as many as vertices for a
  closed ring, one fewer for an open one), and as the drawing session does: one per
  vertex, the last edge leading back to the first vertex, from two vertices on.
\<close>

definition spec_edgeCount :: "bool \<Rightarrow> nat \<Rightarrow> nat" where
  "spec_edgeCount isClosed n = (if isClosed then n else n - 1)"

definition edgeCount :: "nat \<Rightarrow> nat" where
  "edgeCount n = (if 2 \<le> n then n else 0)"

definition markersMatch :: "state \<Rightarrow> bool" where
  "markersMatch st =
     (length (vertexMarkers st) = length (vertices st) \<and>
      length (filter isOverlay (edgeMarkers st)) = edgeCount (length (vertices st)) \<and>
      length (filter isHandle (edgeMarkers st)) = edgeCount (length (vertices st)) \<and>
      length (edgeMarkers st) = 2 * edgeCount (length (vertices st)))"

text \<open>Every object of the session was created before the next identity to hand out.\<close>

definition idsFresh :: "state \<Rightarrow> bool" where
  "idsFresh st =
     ((case tempPolyline st of None \<Rightarrow> True | Some pl \<Rightarrow> pl_id pl < nextId st) \<and>
      list_all (\<lambda>m. marker_id m < nextId st) (vertexMarkers st) \<and>
      list_all (\<lambda>e. edge_id e < nextId st) (edgeMarkers st))"

text \<open>
  The session objects of \<open>st\<close> are gone in \<open>st'\<close>: polyline and markers off the map,
  the two listeners off the map's listeners.
\<close>

definition disposed :: "state \<Rightarrow> state \<Rightarrow> bool" where
  "disposed st st' =
     ((case tempPolyline st of None \<Rightarrow> True | Some pl \<Rightarrow> pl_id pl \<notin> onMap st') \<and>
      list_all (\<lambda>m. marker_id m \<notin> onMap st') (vertexMarkers st) \<and>
      list_all (\<lambda>e. edge_id e \<notin> onMap st') (edgeMarkers st) \<and>
      (case mapClickListener st of None \<Rightarrow> True | Some l \<Rightarrow> l \<notin> mapListeners st') \<and>
      (case mapDblClickListener st of None \<Rightarrow> True | Some l \<Rightarrow> l \<notin> mapListeners st'))"

subsection \<open>Sample runs\<close>

text \<open>
  The examples below need some distance and some area in place of the map library's.
  These two are planar: the distance adds the differences of the two coordinates and
  the area is the shoelace formula, at 111 km to the degree.
\<close>

fun realOf :: "jsnum \<Rightarrow> real" where
  "realOf (Fin x) = x"
| "realOf _ = 0"

fun isFin :: "jsnum \<Rightarrow> bool" where
  "isFin (Fin x) = True"
| "isFin _ = False"

definition finitePoint :: "LatLng \<Rightarrow> bool" where
  "finitePoint p = (isFin (lat p) \<and> isFin (lng p))"

definition sampleDistance :: "LatLng \<Rightarrow> LatLng \<Rightarrow> jsnum" where
  "sampleDistance a b =
     (if finitePoint a \<and> finitePoint b
      then Fin (111000 * (\<bar>realOf (lat b) - realOf (lat a)\<bar> + \<bar>realOf (lng b) - realOf (lng a)\<bar>))
      else NaN)"

definition cross :: "LatLng \<Rightarrow> LatLng \<Rightarrow> real" where
  "cross p q = realOf (lat p) * realOf (lng q) - realOf (lat q) * realOf (lng p)"

fun shoelace :: "LatLng list \<Rightarrow> LatLng \<Rightarrow> real" where
  "shoelace [] first = 0"
| "shoelace [p] first = cross p first"
| "shoelace (p # q # ps) first = cross p q + shoelace (q # ps) first"

definition sampleArea :: "LatLng list \<Rightarrow> jsnum" where
  "sampleArea path =
     (if list_all finitePoint path
      then (case path of [] \<Rightarrow> Fin 0 | p # _ \<Rightarrow> Fin (\<bar>shoelace path p\<bar> / 2 * 111000 * 111000))
      else NaN)"

definition pt :: "real \<Rightarrow> real \<Rightarrow> LatLng" where
  "pt a b = \<lparr>lat = Fin a, lng = Fin b\<rparr>"

text \<open>
  The host passes a callback and chooses \<open>field\<close>; then the user clicks
  \<open>(0,0)\<close>, \<open>(0,1)\<close> and \<open>(1,1)\<close>, and double-clicks.
\<close>

definition drawingStarted :: state where
  "drawingStarted = rerender sampleArea (initial True) (handleCreateField (initial True))"

definition twoClicks :: state where
  "twoClicks =
     mapClick sampleDistance (Some (pt 0 1))
       (mapClick sampleDistance (Some (pt 0 0)) drawingStarted)"

definition threeClicks :: state where
  "threeClicks = mapClick sampleDistance (Some (pt 1 1)) twoClicks"

definition closedTriangle :: state where
  "closedTriangle = rerender sampleArea threeClicks (mapDblClick threeClicks)"

text \<open>Two clicks on the same spot, as a double-click delivers them.\<close>

definition sameSpotTwice :: state where
  "sameSpotTwice =
     mapClick sampleDistance (Some (pt 0 0))
       (mapClick sampleDistance (Some (pt 0 0)) drawingStarted)"

text \<open>The label a rebuild of the edge markers gives edge 0 after the three clicks.\<close>

definition firstLabel :: DistanceOverlay where
  "firstLabel =
     \<lparr>ov_id = 16, ov_position = pt 0 (1 / 2), ov_content = ''111.00km'', ov_angle = Fin 0,
      ov_edge = 0, ov_p1 = pt 0 0, ov_p2 = pt 0 1\<rparr>"

text \<open>The handle the third click's rebuild gives edge 0.\<close>

definition firstHandle :: MidpointMarker where
  "firstHandle =
     \<lparr>mm_id = 11, mm_position = pt 0 (1 / 2), mm_opacity = 1, mm_edge = 0,
      mm_dragMarker = None, mm_originalPosition = None, mm_originalVertices = None,
      mm_tempVertexIndex = None\<rparr>"


subsection \<open>Further notions and runs\<close>

text \<open>The text of a label among the edge markers.\<close>

fun labelText :: "EdgeMarker \<Rightarrow> string option" where
  "labelText (Overlay ov) = Some (ov_content ov)"
| "labelText (Handle _) = None"

text \<open>
  The edges of the outline the session draws: from three vertices on the polyline is
  closed and there are as many edges as vertices; with one vertex or none there is no
  edge. For exactly two vertices nothing is said.
\<close>

definition ringEdges :: "nat \<Rightarrow> nat" where
  "ringEdges n = (if 3 \<le> n then n else 0)"

definition edgeMarkersMatch :: "state \<Rightarrow> bool" where
  "edgeMarkersMatch st =
     (length (vertices st) \<noteq> 2 \<longrightarrow>
        length (filter isOverlay (edgeMarkers st)) = ringEdges (length (vertices st)) \<and>
        length (filter isHandle (edgeMarkers st)) = ringEdges (length (vertices st)) \<and>
        length (edgeMarkers st) = 2 * ringEdges (length (vertices st)))"







text \<open>Three clicks with a short first edge: \<open>(0,0)\<close>, \<open>(0,0.001)\<close>, \<open>(1,1)\<close>.\<close>

definition mixedField :: state where
  "mixedField =
     mapClick sampleDistance (Some (pt 1 1))
       (mapClick sampleDistance (Some (pt 0 (1 / 1000)))
          (mapClick sampleDistance (Some (pt 0 0)) drawingStarted))"

text \<open>The sample triangle after a click on its edge 0 at \<open>(0, 0.5)\<close>.\<close>

definition edgeClicked :: state where
  "edgeClicked = polygonClick 0 (Some 0) None (Some (pt 0 (1 / 2))) closedTriangle"


section \<open>Distance labels\<close>

lemma floor_log2_bounds:
  "1 \<le> n \<Longrightarrow> 2 ^ floor_log2 n \<le> n \<and> n < 2 ^ Suc (floor_log2 n)"
proof (induction n rule: floor_log2.induct)
  case (1 n)
  show ?case
  proof (cases "n < 2")
    case True
    then have "n = 1" using "1.prems" by simp
    then show ?thesis by (simp add: floor_log2.simps)
  next
    case False
    then have h: "1 \<le> n div 2" by simp
    from "1.IH"[OF False h]
    have lo: "2 ^ floor_log2 (n div 2) \<le> n div 2" and hi: "n div 2 < 2 ^ Suc (floor_log2 (n div 2))"
      by simp_all
    have fl: "floor_log2 n = Suc (floor_log2 (n div 2))"
      using False by (subst floor_log2.simps) simp
    have "2 * 2 ^ floor_log2 (n div 2) \<le> n" using lo by linarith
    moreover have "n < 2 * 2 ^ Suc (floor_log2 (n div 2))" using hi by linarith
    ultimately show ?thesis by (simp add: fl)
  qed
qed

lemma pow2_diff: "pow2 (int a - int b) = 2 ^ a / 2 ^ b"
proof (cases "b \<le> a")
  case True
  then have "nat (int a - int b) = a - b" by simp
  then show ?thesis using True by (simp add: pow2_def power_diff)
next
  case False
  then have n: "nat (- (int a - int b)) = b - a" by simp
  have "(2::real) ^ b = 2 ^ (b - a) * 2 ^ a"
    using False by (simp add: power_add[symmetric])
  then show ?thesis using False by (simp add: pow2_def n)
qed

lemma roundEven_close: "\<bar>of_int (roundEven x) - x\<bar> \<le> 1 / 2"
  unfolding roundEven_def Let_def by (auto; linarith)

lemma roundEven_ge_floor: "\<lfloor>x\<rfloor> \<le> roundEven x"
  unfolding roundEven_def Let_def by auto

lemma float64_from_one:
  assumes "1 \<le> x"
  shows "1 \<le> float64 x" and "\<bar>float64 x - x\<bar> \<le> x / 2 ^ 53"
proof -
  define e where "e = floor_log2 (nat \<lfloor>x\<rfloor>)"
  define u :: real where "u = 2 ^ e / 2 ^ 52"
  have n1: "1 \<le> nat \<lfloor>x\<rfloor>" using assms by linarith
  from floor_log2_bounds[OF n1]
  have lo_n: "2 ^ e \<le> nat \<lfloor>x\<rfloor>" unfolding e_def by simp
  have "real (2 ^ e) \<le> real (nat \<lfloor>x\<rfloor>)" using lo_n by (rule of_nat_mono)
  also have "\<dots> \<le> x" using assms by linarith
  finally have lo: "2 ^ e \<le> x" by simp
  have upos: "0 < u" unfolding u_def by simp
  have be: "binExponent x = int e"
    using assms by (simp add: binExponent_def e_def)
  have pu: "pow2 (int e - 52) = u"
    unfolding u_def using pow2_diff[of e 52] by simp
  have x0: "x \<noteq> 0" using assms by simp
  have fx: "float64 x = of_int (roundEven (x / u)) * u"
    unfolding float64_def Let_def be pu using x0 by (rule if_not_P)
  have c: "\<bar>of_int (roundEven (x / u)) - x / u\<bar> \<le> 1 / 2" by (rule roundEven_close)
  have "float64 x - x = (of_int (roundEven (x / u)) - x / u) * u"
    using upos by (simp add: fx left_diff_distrib)
  then have "\<bar>float64 x - x\<bar> = \<bar>of_int (roundEven (x / u)) - x / u\<bar> * u"
    using upos by (simp add: abs_mult)
  also have "\<dots> \<le> 1 / 2 * u" using c upos by (intro mult_right_mono) simp_all
  also have "\<dots> = 2 ^ e / 2 ^ 53" by (simp add: u_def)
  also have "\<dots> \<le> x / 2 ^ 53" using lo by (simp add: divide_right_mono)
  finally show "\<bar>float64 x - x\<bar> \<le> x / 2 ^ 53" .
  have "(2::real) ^ 52 \<le> x / u"
    using lo upos by (simp add: u_def field_simps)
  then have "(2::int) ^ 52 \<le> \<lfloor>x / u\<rfloor>" by (simp add: le_floor_iff)
  then have "(2::int) ^ 52 \<le> roundEven (x / u)" using roundEven_ge_floor[of "x / u"] by linarith
  then have "(2::real) ^ 52 \<le> of_int (roundEven (x / u))"
    by (metis of_int_le_iff of_int_numeral of_int_power)
  then have a: "2 ^ 52 * u \<le> of_int (roundEven (x / u)) * u"
    using upos by (intro mult_right_mono) simp_all
  have b: "2 ^ 52 * u = 2 ^ e" by (simp add: u_def)
  have c1: "(1::real) \<le> 2 ^ e" by simp
  show "1 \<le> float64 x" unfolding fx using a b c1 by linarith
qed

lemma digits_split:
  assumes "100 \<le> n"
  shows "digits n = digits (n div 100) @ [digit_char (n div 10 mod 10), digit_char (n mod 10)]"
proof -
  have big: "\<not> n < 10" "\<not> n div 10 < 10" using assms by linarith+
  have a: "digits n = digits (n div 10) @ [digit_char (n mod 10)]"
    using big(1) digits.simps[of n] by simp
  have b: "digits (n div 10) = digits (n div 10 div 10) @ [digit_char (n div 10 mod 10)]"
    using big(2) digits.simps[of "n div 10"] by simp
  have c: "n div 10 div 10 = n div 100"
    by (simp add: div_mult2_eq)
  show ?thesis using a b c by simp
qed

lemma digits_nonempty: "digits n \<noteq> []"
  by (subst digits.simps) simp

lemma round_half_up_close:
  fixes x :: real
  assumes "0 \<le> x"
  shows "\<bar>x - real (nat \<lfloor>x + 1 / 2\<rfloor>)\<bar> \<le> 1 / 2"
  using assms by linarith

lemma distanceText_meters:
  assumes "0 \<le> d" "d < 1000"
  shows "distanceText (Fin d) = digits (nat \<lfloor>d + 1 / 2\<rfloor>) @ ''m''"
proof -
  define z where "z = \<lfloor>d + 1 / 2\<rfloor>"
  have nn: "0 \<le> z" and small: "z \<le> 1000" unfolding z_def using assms by linarith+
  have a: "\<not> (of_int z :: real) < 0" using nn by simp
  have b: "\<not> (10::real) ^ 21 \<le> \<bar>of_int z\<bar>" using nn small by simp
  have c: "\<lfloor>\<bar>of_int z :: real\<bar>\<rfloor> = z" using nn by simp
  have "ToString (Math_round (Fin d)) = digits (nat z)"
    unfolding Math_round.simps ToString.simps integerString_def z_def[symmetric]
    using a b c by simp
  then show ?thesis using assms by (simp add: distanceText_def z_def)
qed

lemma toFixed2_from_one:
  assumes "1 \<le> x" and "x < 10 ^ 21"
  shows "toFixed2 (Fin x) =
           (let n = nat \<lfloor>x * 100 + 1 / 2\<rfloor>
            in digits (n div 100) @ ''.'' @ [digit_char (n div 10 mod 10), digit_char (n mod 10)])"
proof -
  define n where "n = nat \<lfloor>x * 100 + 1 / 2\<rfloor>"
  have n100: "100 \<le> n" unfolding n_def using assms by linarith
  have sp: "digits n = digits (n div 100) @ [digit_char (n div 10 mod 10), digit_char (n mod 10)]"
    using n100 by (rule digits_split)
  have len: "length (digits n) = length (digits (n div 100)) + 2"
    by (subst sp) simp
  have long: "\<not> length (digits n) \<le> 2"
    using len digits_nonempty[of "n div 100"] by (cases "digits (n div 100)") simp_all
  have n_abs: "nat \<lfloor>\<bar>x\<bar> * 100 + 1 / 2\<rfloor> = n"
    unfolding n_def using assms by simp
  have below: "\<not> 10 ^ 21 \<le> \<bar>x\<bar>" using assms by simp
  have "toFixed2 (Fin x) =
      take (length (digits n) - 2) (digits n) @ ''.'' @ drop (length (digits n) - 2) (digits n)"
    unfolding toFixed2_def jsnum.case Let_def n_abs if_not_P[OF below] using assms long by simp
  also have "\<dots> = digits (n div 100) @ ''.'' @ [digit_char (n div 10 mod 10), digit_char (n mod 10)]"
    unfolding len by (subst (1 2) sp) simp
  finally show ?thesis unfolding Let_def n_def .
qed

lemma quotient_rounded:
  assumes "1000 \<le> d" and "d < 10 ^ 23"
  shows "1 \<le> float64 (d / 1000)" and "float64 (d / 1000) < 10 ^ 21"
    and "\<bar>float64 (d / 1000) - d / 1000\<bar> \<le> d / 1000 / 2 ^ 53"
proof -
  have one: "1 \<le> d / 1000" using assms by simp
  show "1 \<le> float64 (d / 1000)" by (rule float64_from_one(1)[OF one])
  show err: "\<bar>float64 (d / 1000) - d / 1000\<bar> \<le> d / 1000 / 2 ^ 53"
    by (rule float64_from_one(2)[OF one])
  have "d / 1000 / 2 ^ 53 \<le> d / 1000" using assms by simp
  then have "float64 (d / 1000) \<le> 2 * (d / 1000)" using err by linarith
  also have "\<dots> < 10 ^ 21" using assms by simp
  finally show "float64 (d / 1000) < 10 ^ 21" .
qed

lemma distanceText_kilometers:
  assumes "1000 \<le> d" and "d < 10 ^ 23"
  shows "distanceText (Fin d) =
           (let n = nat \<lfloor>float64 (d / 1000) * 100 + 1 / 2\<rfloor>
            in digits (n div 100) @ ''.'' @ [digit_char (n div 10 mod 10), digit_char (n mod 10)] @ ''km'')"
proof -
  note q = quotient_rounded[OF assms]
  have "distanceText (Fin d) = toFixed2 (Fin (float64 (d / 1000))) @ ''km''"
    using assms by (simp add: distanceText_def js_div64_def)
  then show ?thesis unfolding toFixed2_from_one[OF q(1) q(2)] Let_def by simp
qed

lemmas label_defs =
  distanceText_def js_div64_def toFixed2_def integerString_def float64_def binExponent_def
  floor_log2.simps pow2_def roundEven_def digits.simps digit_char_def Let_def

text \<open>
  At 1005 meters the quotient is the double just below 1.005, and the label reads
  1.00 km.
\<close>

lemma label_at_1005: "distanceText (Fin 1005) = ''1.00km''"
  by (simp add: label_defs)

section \<open>Rebuilding the edge markers\<close>

lemma edgeMarkerStep_fields [simp]:
  "vertices (edgeMarkerStep d i st) = vertices st"
  "vertexMarkers (edgeMarkerStep d i st) = vertexMarkers st"
  "tempPolyline (edgeMarkerStep d i st) = tempPolyline st"
  "nextId (edgeMarkerStep d i st) = nextId st + 2"
  "fieldPolygons (edgeMarkerStep d i st) = fieldPolygons st"
  "polygons (edgeMarkerStep d i st) = polygons st"
  "areaUpdates (edgeMarkerStep d i st) = areaUpdates st"
  "isDrawingMode (edgeMarkerStep d i st) = isDrawingMode st"
  "mapListeners (edgeMarkerStep d i st) = mapListeners st"
  "mapClickListener (edgeMarkerStep d i st) = mapClickListener st"
  "mapDblClickListener (edgeMarkerStep d i st) = mapDblClickListener st"
  "onAreaUpdate (edgeMarkerStep d i st) = onAreaUpdate st"
  by (simp_all add: edgeMarkerStep_def Let_def)

lemma fold_step_fields [simp]:
  "vertices (fold (edgeMarkerStep d) is st) = vertices st"
  "vertexMarkers (fold (edgeMarkerStep d) is st) = vertexMarkers st"
  "tempPolyline (fold (edgeMarkerStep d) is st) = tempPolyline st"
  "nextId (fold (edgeMarkerStep d) is st) = nextId st + 2 * length is"
  "fieldPolygons (fold (edgeMarkerStep d) is st) = fieldPolygons st"
  "polygons (fold (edgeMarkerStep d) is st) = polygons st"
  "areaUpdates (fold (edgeMarkerStep d) is st) = areaUpdates st"
  "isDrawingMode (fold (edgeMarkerStep d) is st) = isDrawingMode st"
  "mapListeners (fold (edgeMarkerStep d) is st) = mapListeners st"
  "mapClickListener (fold (edgeMarkerStep d) is st) = mapClickListener st"
  "mapDblClickListener (fold (edgeMarkerStep d) is st) = mapDblClickListener st"
  "onAreaUpdate (fold (edgeMarkerStep d) is st) = onAreaUpdate st"
  by (induction "is" arbitrary: st; simp)+

lemma edgeMarkerStep_edgeMarkers:
  "2 * i \<le> nextId st \<Longrightarrow>
   edgeMarkers (edgeMarkerStep d i st) = edgeMarkers st @ edgePair d (vertices st) (nextId st - 2 * i) i"
  by (simp add: edgeMarkerStep_def edgePair_def Let_def)

lemma fold_step_edgeMarkers:
  "edgeMarkers (fold (edgeMarkerStep d) [0..<m] st) =
     edgeMarkers st @ concat (map (edgePair d (vertices st) (nextId st)) [0..<m])"
proof (induction m)
  case 0
  show ?case by simp
next
  case (Suc m)
  have "edgeMarkers (fold (edgeMarkerStep d) [0..<Suc m] st) =
        edgeMarkers (edgeMarkerStep d m (fold (edgeMarkerStep d) [0..<m] st))"
    by simp
  also have "\<dots> = edgeMarkers (fold (edgeMarkerStep d) [0..<m] st) @ edgePair d (vertices st) (nextId st) m"
    by (subst edgeMarkerStep_edgeMarkers) simp_all
  finally show ?case using Suc by simp
qed

lemma removeEdgeMarkers_fields [simp]:
  "vertices (removeEdgeMarkers st) = vertices st"
  "vertexMarkers (removeEdgeMarkers st) = vertexMarkers st"
  "tempPolyline (removeEdgeMarkers st) = tempPolyline st"
  "nextId (removeEdgeMarkers st) = nextId st"
  "edgeMarkers (removeEdgeMarkers st) = []"
  "fieldPolygons (removeEdgeMarkers st) = fieldPolygons st"
  "polygons (removeEdgeMarkers st) = polygons st"
  "areaUpdates (removeEdgeMarkers st) = areaUpdates st"
  "isDrawingMode (removeEdgeMarkers st) = isDrawingMode st"
  by (simp_all add: removeEdgeMarkers_def)

lemma updateEdgeMarkers_fields [simp]:
  "vertices (updateEdgeMarkers d st) = vertices st"
  "vertexMarkers (updateEdgeMarkers d st) = vertexMarkers st"
  "tempPolyline (updateEdgeMarkers d st) = tempPolyline st"
  "fieldPolygons (updateEdgeMarkers d st) = fieldPolygons st"
  "polygons (updateEdgeMarkers d st) = polygons st"
  "areaUpdates (updateEdgeMarkers d st) = areaUpdates st"
  "isDrawingMode (updateEdgeMarkers d st) = isDrawingMode st"
  by (simp_all add: updateEdgeMarkers_def Let_def)

lemma updateEdgeMarkers_edgeMarkers:
  "edgeMarkers (updateEdgeMarkers d st) =
     (if 2 \<le> length (vertices st)
      then concat (map (edgePair d (vertices st) (nextId st)) [0..<length (vertices st)])
      else [])"
  by (simp add: updateEdgeMarkers_def Let_def fold_step_edgeMarkers)

lemma length_edgePair [simp]: "length (edgePair d vs b i) = 2"
  by (simp add: edgePair_def Let_def)

lemma length_concat_pairs: "length (concat (map (edgePair d vs b) [0..<m])) = 2 * m"
  by (induction m) simp_all

lemma nth_concat_pairs:
  "i < m \<Longrightarrow> j < 2 \<Longrightarrow> concat (map (edgePair d vs b) [0..<m]) ! (2 * i + j) = edgePair d vs b i ! j"
proof (induction m)
  case 0
  then show ?case by simp
next
  case (Suc m)
  show ?case
  proof (cases "i < m")
    case True
    then show ?thesis using Suc by (simp add: nth_append length_concat_pairs)
  next
    case False
    then have "i = m" using Suc.prems by simp
    then show ?thesis using Suc.prems by (simp add: nth_append length_concat_pairs)
  qed
qed

lemma filter_handles_pairs:
  "length (filter isHandle (concat (map (edgePair d vs b) [0..<m]))) = m"
  by (induction m) (simp_all add: edgePair_def Let_def)

lemma filter_overlays_pairs:
  "length (filter isOverlay (concat (map (edgePair d vs b) [0..<m]))) = m"
  by (induction m) (simp_all add: edgePair_def Let_def)

lemmas run_defs =
  drawingStarted_def twoClicks_def threeClicks_def sameSpotTwice_def closedTriangle_def
  pt_def sampleDistance_def finitePoint_def sampleArea_def cross_def
  initial_def handleCreateField_def rerender_def areaEffect_def totalArea_def getPath_def
  startDrawing_def mapClick_def updateEdgeMarkers_def removeEdgeMarkers_def edgeMarkerStep_def
  setPath_def closedPath_def mapDblClick_def onPolygonComplete_def addEdgeMarkers_def
  removeListener_def
  label_defs upt_rec

lemma set_edgePair_overlay:
  "Overlay ov \<in> set (edgePair d vs b i) \<Longrightarrow> ov_angle ov = Fin 0"
  by (auto simp: edgePair_def Let_def)

lemma onAdd_transform: "div_transform (onAdd ov) = ''translate(-50%, -150%)''"
  by (simp add: onAdd_def Let_def)

text \<open>
  Claim C9. Every distance label that a rebuild of the edge markers creates is
  constructed with angle \<open>0\<close>, whatever the direction of its edge, and the box that
  \<open>onAdd\<close> builds for a label carries a transform that only translates it.
\<close>

theorem C9_labels_horizontal:
  "Overlay ov \<in> set (edgeMarkers (updateEdgeMarkers d st)) \<Longrightarrow>
     ov_angle ov = Fin 0 \<and> div_transform (onAdd ov) = ''translate(-50%, -150%)''"
  by (auto simp: updateEdgeMarkers_edgeMarkers onAdd_transform split: if_splits
           dest: set_edgePair_overlay)

theorem C9_labels_horizontal_witness:
  "Overlay firstLabel \<in> set (edgeMarkers (updateEdgeMarkers sampleDistance threeClicks)) \<and>
   ov_angle firstLabel = Fin 0 \<and>
   div_transform (onAdd firstLabel) = ''translate(-50%, -150%)''"
proof -
  have mem: "Overlay firstLabel \<in> set (edgeMarkers (updateEdgeMarkers sampleDistance threeClicks))"
    by (simp add: run_defs firstLabel_def)
  from C9_labels_horizontal[OF mem] mem show ?thesis by simp
qed

text \<open>
  Claim C10. For every edge \<open>i\<close> of the session, from a vertex \<open>(a, b)\<close> to the next
  vertex \<open>(a', b')\<close> (the first one after the last), the label and the handle that
  a rebuild creates for the edge both stand at \<open>((a + a') / 2, (b + b') / 2)\<close>, the
  mean of the two latitudes and of the two longitudes.
\<close>

theorem C10_planar_midpoint:
  assumes "2 \<le> length (vertices st)" and "i < length (vertices st)"
    and "vertices st ! i = \<lparr>lat = Fin a, lng = Fin b\<rparr>"
    and "vertices st ! ((i + 1) mod length (vertices st)) = \<lparr>lat = Fin a', lng = Fin b'\<rparr>"
  shows "isOverlay (edgeMarkers (updateEdgeMarkers d st) ! (2 * i)) \<and>
         isHandle (edgeMarkers (updateEdgeMarkers d st) ! (2 * i + 1)) \<and>
         edge_position (edgeMarkers (updateEdgeMarkers d st) ! (2 * i)) =
           \<lparr>lat = Fin ((a + a') / 2), lng = Fin ((b + b') / 2)\<rparr> \<and>
         edge_position (edgeMarkers (updateEdgeMarkers d st) ! (2 * i + 1)) =
           \<lparr>lat = Fin ((a + a') / 2), lng = Fin ((b + b') / 2)\<rparr>"
proof -
  let ?ps = "concat (map (edgePair d (vertices st) (nextId st)) [0..<length (vertices st)])"
  have em: "edgeMarkers (updateEdgeMarkers d st) = ?ps"
    using assms(1) by (simp add: updateEdgeMarkers_edgeMarkers)
  have n0: "?ps ! (2 * i) = edgePair d (vertices st) (nextId st) i ! 0"
    using nth_concat_pairs[of i "length (vertices st)" 0 d "vertices st" "nextId st"] assms(2)
    by simp
  have n1: "?ps ! (2 * i + 1) = edgePair d (vertices st) (nextId st) i ! 1"
    using nth_concat_pairs[of i "length (vertices st)" 1 d "vertices st" "nextId st"] assms(2)
    by simp
  show ?thesis
    unfolding em n0 n1 using assms(3,4) by (simp add: edgePair_def Let_def)
qed

theorem C10_planar_midpoint_witness:
  "2 \<le> length (vertices threeClicks) \<and> 2 < length (vertices threeClicks) \<and>
   vertices threeClicks ! 2 = \<lparr>lat = Fin 1, lng = Fin 1\<rparr> \<and>
   vertices threeClicks ! ((2 + 1) mod length (vertices threeClicks)) = \<lparr>lat = Fin 0, lng = Fin 0\<rparr> \<and>
   edge_position (edgeMarkers (updateEdgeMarkers sampleDistance threeClicks) ! (2 * 2 + 1)) =
     \<lparr>lat = Fin ((1 + 0) / 2), lng = Fin ((1 + 0) / 2)\<rparr>"
proof -
  have v: "vertices threeClicks = [pt 0 0, pt 0 1, pt 1 1]"
    by (simp add: run_defs)
  have h1: "2 \<le> length (vertices threeClicks)" and h2: "2 < length (vertices threeClicks)"
    and h3: "vertices threeClicks ! 2 = \<lparr>lat = Fin 1, lng = Fin 1\<rparr>"
    and h4: "vertices threeClicks ! ((2 + 1) mod length (vertices threeClicks)) = \<lparr>lat = Fin 0, lng = Fin 0\<rparr>"
    by (simp_all add: v pt_def)
  from C10_planar_midpoint[OF h1 h2 h3 h4, of sampleDistance] h1 h2 h3 h4
  show ?thesis by blast
qed

section \<open>The label of an edge\<close>

lemma label_of_edge:
  assumes "2 \<le> length (vertices st)" and "i < length (vertices st)"
  shows "labelText (edgeMarkers (updateEdgeMarkers d st) ! (2 * i)) =
           Some (distanceText (d (vertices st ! i) (vertices st ! ((i + 1) mod length (vertices st)))))"
proof -
  let ?ps = "concat (map (edgePair d (vertices st) (nextId st)) [0..<length (vertices st)])"
  have em: "edgeMarkers (updateEdgeMarkers d st) = ?ps"
    using assms(1) by (simp add: updateEdgeMarkers_edgeMarkers)
  have n0: "?ps ! (2 * i) = edgePair d (vertices st) (nextId st) i ! 0"
    using nth_concat_pairs[of i "length (vertices st)" 0 d "vertices st" "nextId st"] assms(2)
    by simp
  show ?thesis unfolding em n0 by (simp add: edgePair_def Let_def)
qed

text \<open>
  Claim C8. For every edge \<open>i\<close> of the session whose length is a finite number
  \<open>len\<close>, not negative, the label a rebuild creates for the edge reads: below 1000,
  the integer nearest to \<open>len\<close> (at most one half away, a tie going up) followed by
  \<open>m\<close>; from 1000 on (and below \<open>10^23\<close>, where the quotient is printed in plain
  digits), the quotient \<open>len / 1000\<close> as the program computes it (the nearest double,
  within a relative \<open>2^-53\<close>), rounded to the nearest hundredth and written with exactly
  two digits after the point, followed by \<open>km\<close>.
\<close>

theorem C8_distance_label:
  assumes "2 \<le> length (vertices st)" and "i < length (vertices st)"
    and "d (vertices st ! i) (vertices st ! ((i + 1) mod length (vertices st))) = Fin len"
    and "0 \<le> len"
  shows "(len < 1000 \<longrightarrow>
            labelText (edgeMarkers (updateEdgeMarkers d st) ! (2 * i)) =
              Some (digits (nat \<lfloor>len + 1 / 2\<rfloor>) @ ''m'') \<and>
            \<bar>len - real (nat \<lfloor>len + 1 / 2\<rfloor>)\<bar> \<le> 1 / 2) \<and>
         (1000 \<le> len \<and> len < 10 ^ 23 \<longrightarrow>
            (let q = float64 (len / 1000); n = nat \<lfloor>q * 100 + 1 / 2\<rfloor>
             in labelText (edgeMarkers (updateEdgeMarkers d st) ! (2 * i)) =
                  Some (digits (n div 100) @ ''.'' @
                        [digit_char (n div 10 mod 10), digit_char (n mod 10)] @ ''km'') \<and>
                \<bar>q - real n / 100\<bar> \<le> 1 / 200 \<and>
                \<bar>q - len / 1000\<bar> \<le> len / 1000 / 2 ^ 53))"
proof (intro conjI impI)
  note lbl = label_of_edge[OF assms(1,2), of d, unfolded assms(3)]
  {
    assume "len < 1000"
    then show "labelText (edgeMarkers (updateEdgeMarkers d st) ! (2 * i)) =
              Some (digits (nat \<lfloor>len + 1 / 2\<rfloor>) @ ''m'')"
      using assms(4) by (simp add: lbl distanceText_meters)
    show "\<bar>len - real (nat \<lfloor>len + 1 / 2\<rfloor>)\<bar> \<le> 1 / 2"
      using assms(4) by (rule round_half_up_close)
  }
  assume h: "1000 \<le> len \<and> len < 10 ^ 23"
  then have h1: "1000 \<le> len" and h2: "len < 10 ^ 23" by simp_all
  define q where "q = float64 (len / 1000)"
  define n where "n = nat \<lfloor>q * 100 + 1 / 2\<rfloor>"
  note r = quotient_rounded[OF h1 h2, folded q_def]
  have "0 \<le> q * 100" using r(1) by simp
  from round_half_up_close[OF this]
  have "\<bar>q * 100 - real n\<bar> \<le> 1 / 2" unfolding n_def .
  then have close: "\<bar>q - real n / 100\<bar> \<le> 1 / 200" by linarith
  have label_eq: "labelText (edgeMarkers (updateEdgeMarkers d st) ! (2 * i)) =
      Some (digits (n div 100) @ ''.'' @ [digit_char (n div 10 mod 10), digit_char (n mod 10)] @ ''km'')"
    unfolding lbl distanceText_kilometers[OF h1 h2] Let_def n_def q_def by simp
  show "let q = float64 (len / 1000); n = nat \<lfloor>q * 100 + 1 / 2\<rfloor>
        in labelText (edgeMarkers (updateEdgeMarkers d st) ! (2 * i)) =
             Some (digits (n div 100) @ ''.'' @
                   [digit_char (n div 10 mod 10), digit_char (n mod 10)] @ ''km'') \<and>
           \<bar>q - real n / 100\<bar> \<le> 1 / 200 \<and>
           \<bar>q - len / 1000\<bar> \<le> len / 1000 / 2 ^ 53"
    unfolding Let_def q_def[symmetric] n_def[symmetric] using label_eq close r(3) by blast
qed

lemma mixedField_vertices: "vertices mixedField = [pt 0 0, pt 0 (1 / 1000), pt 1 1]"
  by (simp add: mixedField_def run_defs)

theorem C8_distance_label_witness:
  "2 \<le> length (vertices mixedField) \<and>
   0 < length (vertices mixedField) \<and> 1 < length (vertices mixedField) \<and>
   sampleDistance (vertices mixedField ! 0) (vertices mixedField ! ((0 + 1) mod length (vertices mixedField))) = Fin 111 \<and>
   (0::real) \<le> 111 \<and> (111::real) < 1000 \<and>
   labelText (edgeMarkers (updateEdgeMarkers sampleDistance mixedField) ! (2 * 0)) = Some ''111m'' \<and>
   sampleDistance (vertices mixedField ! 1) (vertices mixedField ! ((1 + 1) mod length (vertices mixedField))) = Fin 221889 \<and>
   (0::real) \<le> 221889 \<and> (1000::real) \<le> 221889 \<and> (221889::real) < 10 ^ 23 \<and>
   labelText (edgeMarkers (updateEdgeMarkers sampleDistance mixedField) ! (2 * 1)) = Some ''221.89km''"
proof -
  have n: "2 \<le> length (vertices mixedField)" "0 < length (vertices mixedField)"
      "1 < length (vertices mixedField)"
    by (simp_all add: mixedField_vertices)
  have d0: "sampleDistance (vertices mixedField ! 0)
              (vertices mixedField ! ((0 + 1) mod length (vertices mixedField))) = Fin 111"
    by (simp add: mixedField_vertices sampleDistance_def finitePoint_def pt_def)
  have d1: "sampleDistance (vertices mixedField ! 1)
              (vertices mixedField ! ((1 + 1) mod length (vertices mixedField))) = Fin 221889"
    by (simp add: mixedField_vertices sampleDistance_def finitePoint_def pt_def)
  have a: "labelText (edgeMarkers (updateEdgeMarkers sampleDistance mixedField) ! (2 * 0)) = Some ''111m''"
    using C8_distance_label[where st=mixedField and i=0 and d=sampleDistance and len=111, OF n(1) n(2) d0] by (simp add: digits.simps digit_char_def)
  have b: "labelText (edgeMarkers (updateEdgeMarkers sampleDistance mixedField) ! (2 * 1)) = Some ''221.89km''"
    using C8_distance_label[where st=mixedField and i=1 and d=sampleDistance and len=221889, OF n(1) n(3) d1]
    by (simp add: float64_def binExponent_def floor_log2.simps pow2_def roundEven_def
          digits.simps digit_char_def Let_def)
  show ?thesis using n d0 d1 a b by simp
qed

section \<open>Markers and vertices of the session\<close>

lemma setPath_fields [simp]:
  "vertices (setPath p st) = vertices st"
  "vertexMarkers (setPath p st) = vertexMarkers st"
  "edgeMarkers (setPath p st) = edgeMarkers st"
  "nextId (setPath p st) = nextId st"
  "onMap (setPath p st) = onMap st"
  "fieldPolygons (setPath p st) = fieldPolygons st"
  "polygons (setPath p st) = polygons st"
  "areaUpdates (setPath p st) = areaUpdates st"
  "isDrawingMode (setPath p st) = isDrawingMode st"
  by (simp_all add: setPath_def)

lemma updateEdgeMarkers_counts:
  "length (edgeMarkers (updateEdgeMarkers d st)) = 2 * edgeCount (length (vertices st))"
  "length (filter isOverlay (edgeMarkers (updateEdgeMarkers d st))) = edgeCount (length (vertices st))"
  "length (filter isHandle (edgeMarkers (updateEdgeMarkers d st))) = edgeCount (length (vertices st))"
  by (simp_all add: updateEdgeMarkers_edgeMarkers edgeCount_def length_concat_pairs
        filter_overlays_pairs filter_handles_pairs)

lemma markersMatch_update:
  "length (vertexMarkers st) = length (vertices st) \<Longrightarrow> markersMatch (updateEdgeMarkers d st)"
  by (simp add: markersMatch_def updateEdgeMarkers_counts)

lemma mapClick_appends:
  assumes "tempPolyline st \<noteq> None"
  shows "vertices (mapClick d (Some p) st) = vertices st @ [p]"
    and "vertexMarkers (mapClick d (Some p) st) = vertexMarkers st @ [\<lparr>marker_id = nextId st, position = p\<rparr>]"
  using assms by (simp_all add: mapClick_def Let_def)

lemma markersMatch_mapClick:
  assumes "length (vertexMarkers st) = length (vertices st)" and "tempPolyline st \<noteq> None"
  shows "markersMatch (mapClick d (Some p) st)"
  using assms by (auto simp: mapClick_def Let_def markersMatch_update)

lemma handleAt_setHandle:
  "k < length (edgeMarkers st) \<Longrightarrow> handleAt (setHandle k m st) k = Some m"
  by (simp add: handleAt_def setHandle_def)

lemma handleAt_bound: "handleAt st k = Some h \<Longrightarrow> k < length (edgeMarkers st)"
  by (simp add: handleAt_def split: if_splits)

lemma midpointDragStart_effect:
  assumes "handleAt st k = Some h"
  shows "vertices (midpointDragStart k st) = splice_in (vertices st) (mm_edge h + 1) (mm_position h)"
    and "vertexMarkers (midpointDragStart k st) = vertexMarkers st"
    and "handleAt (midpointDragStart k st) k =
           Some (h\<lparr>mm_dragMarker := Some \<lparr>marker_id = nextId st, position = mm_position h\<rparr>,
                   mm_opacity := 0,
                   mm_originalPosition := Some (mm_position h),
                   mm_originalVertices := Some (vertices st),
                   mm_tempVertexIndex := Some (mm_edge h + 1)\<rparr>)"
  using assms handleAt_bound[OF assms]
  by (simp_all add: midpointDragStart_def Let_def handleAt_def setHandle_def)

lemma midpointDragEnd_promotes:
  assumes "handleAt st k = Some h" and "mm_tempVertexIndex h = Some t" and "t < length (vertices st)"
  shows "\<exists>st'. midpointDragEnd d k (Some q) st = Inr st' \<and>
           vertices st' = (vertices st)[t := q] \<and>
           vertexMarkers st' = splice_in (vertexMarkers st) t \<lparr>marker_id = nextId st, position = q\<rparr> \<and>
           length (edgeMarkers st') = 2 * edgeCount (length (vertices st)) \<and>
           length (filter isOverlay (edgeMarkers st')) = edgeCount (length (vertices st)) \<and>
           length (filter isHandle (edgeMarkers st')) = edgeCount (length (vertices st))"
  using assms
  by (simp add: midpointDragEnd_def Let_def array_set_def setHandle_def updateEdgeMarkers_counts)

lemma midpointDragEnd_without_point:
  assumes "handleAt st k = Some h"
  shows "\<exists>st'. midpointDragEnd d k None st = Inr st' \<and> vertices st' = vertices st \<and>
           vertexMarkers st' = vertexMarkers st"
  using assms by (simp add: midpointDragEnd_def Let_def setHandle_def)

lemma splice_in_length [simp]: "length (splice_in xs i v) = length xs + 1"
  by (simp add: splice_in_def)

lemma splice_in_update:
  "i \<le> length xs \<Longrightarrow> (splice_in xs i v)[i := w] = splice_in xs i w"
  by (simp add: splice_in_def list_update_append)

lemma splice_in_nth: "i \<le> length xs \<Longrightarrow> splice_in xs i v ! i = v"
  by (simp add: splice_in_def nth_append)

lemma drag_sequence_counts:
  assumes eq: "length (vertexMarkers st) = length (vertices st)"
    and h: "handleAt st k = Some h" and i: "mm_edge h < length (vertices st)"
  shows "\<exists>st'. midpointDragEnd d k (Some q) (midpointDragStart k st) = Inr st' \<and>
           markersMatch st' \<and> vertices st' = splice_in (vertices st) (mm_edge h + 1) q"
proof -
  let ?s1 = "midpointDragStart k st"
  let ?h1 = "h\<lparr>mm_dragMarker := Some \<lparr>marker_id = nextId st, position = mm_position h\<rparr>,
                   mm_opacity := 0,
                   mm_originalPosition := Some (mm_position h),
                   mm_originalVertices := Some (vertices st),
                   mm_tempVertexIndex := Some (mm_edge h + 1)\<rparr>"
  have a: "handleAt ?s1 k = Some ?h1" by (rule midpointDragStart_effect(3)[OF h])
  have b: "mm_tempVertexIndex ?h1 = Some (mm_edge h + 1)" by simp
  have v1: "vertices ?s1 = splice_in (vertices st) (mm_edge h + 1) (mm_position h)"
    by (rule midpointDragStart_effect(1)[OF h])
  have m1: "vertexMarkers ?s1 = vertexMarkers st"
    by (rule midpointDragStart_effect(2)[OF h])
  have c: "mm_edge h + 1 < length (vertices ?s1)" using i by (simp add: v1)
  from midpointDragEnd_promotes[OF a b c, of d q]
  obtain st' where r: "midpointDragEnd d k (Some q) ?s1 = Inr st'"
    and v: "vertices st' = (vertices ?s1)[mm_edge h + 1 := q]"
    and m: "vertexMarkers st' = splice_in (vertexMarkers ?s1) (mm_edge h + 1) \<lparr>marker_id = nextId ?s1, position = q\<rparr>"
    and e: "length (edgeMarkers st') = 2 * edgeCount (length (vertices ?s1))"
           "length (filter isOverlay (edgeMarkers st')) = edgeCount (length (vertices ?s1))"
           "length (filter isHandle (edgeMarkers st')) = edgeCount (length (vertices ?s1))"
    by blast
  have v': "vertices st' = splice_in (vertices st) (mm_edge h + 1) q"
    using i by (simp add: v v1 splice_in_update)
  have "markersMatch st'"
    using e eq by (simp add: markersMatch_def v' m m1 v1)
  then show ?thesis using r v' by blast
qed

text \<open>
  The handlers that move a vertex without adding one: dragging a vertex marker, a
  distance edit that returns, a step of a handle drag, a label input that is not a
  number.
\<close>

lemma markersMatch_vertexMarkerDrag:
  assumes "length (vertexMarkers st) = length (vertices st)"
  shows "\<exists>st'. vertexMarkerDrag d k e st = Inr st' \<and>
           length (vertexMarkers st') = length (vertices st') \<and>
           length (vertices st') = length (vertices st) \<and>
           (e \<noteq> None \<and> k < length (vertexMarkers st) \<longrightarrow> markersMatch st')"
  using assms
  by (cases e) (auto simp: vertexMarkerDrag_def array_set_def Let_def markersMatch_update)

lemma markersMatch_handleDistanceChange:
  assumes "length (vertexMarkers st) = length (vertices st)"
    and "handleDistanceChange d k L st = Inr st'" and "overlayAt st k \<noteq> None"
  shows "markersMatch st' \<and> length (vertices st') = length (vertices st)"
  using assms
  by (auto simp: handleDistanceChange_def Let_def markersMatch_update split: if_splits)

lemma midpointDrag_moves_provisional:
  assumes "handleAt st k = Some h" and "mm_tempVertexIndex h = Some t"
    and "t < length (vertices st)" and "tempPolyline st \<noteq> None"
  shows "\<exists>st'. midpointDrag k (Some q) st = Inr st' \<and>
           vertices st' = (vertices st)[t := q] \<and>
           vertexMarkers st' = vertexMarkers st \<and>
           map_option mm_tempVertexIndex (handleAt st' k) = Some (Some t)"
  using assms handleAt_bound[OF assms(1)]
  by (auto simp: midpointDrag_def Let_def array_set_def setHandle_def setPath_def handleAt_def)

lemma submitDistance_not_a_number:
  "submitDistance d k NaN st = Inr st"
  by (simp add: submitDistance_def inputChange_def isNaN_def split: option.splits)

section \<open>Inserting a vertex on a finished polygon\<close>

lemma pathInsertAt_effect:
  assumes pg: "polygons st pid = Some pg" and i: "i \<le> length (pg_path pg)"
  shows "polygons (pathInsertAt pid i p st) pid =
           Some (pg\<lparr>pg_path := splice_in (pg_path pg) i p,
                    pg_vertexMarkers := splice_in (pg_vertexMarkers pg) i
                       \<lparr>pm_id = nextId st, pm_position = p, pm_index = i\<rparr>\<rparr>)"
    and "nextId st \<in> onMap (pathInsertAt pid i p st)"
    and "fieldPolygons (pathInsertAt pid i p st) = fieldPolygons st"
  using assms by (simp_all add: pathInsertAt_def Let_def splice_in_nth)

text \<open>
  A click on the polygon rendered for \<open>fieldPolygons[k]\<close> that carries edge \<open>e\<close> of its
  path, no vertex and the geo-point \<open>p\<close> puts \<open>p\<close> into the path at index \<open>e + 1\<close>, the
  rest of the path keeping its order, and the \<open>insert_at\<close> listener puts one new marker
  on the map, standing at \<open>p\<close>, into the polygon's vertex markers at the same index.
  The markers that were there stay as they are.
\<close>

lemma edge_click_inserts:
  assumes k: "k < length (fieldPolygons st)"
    and pg: "polygons st (fieldPolygons st ! k) = Some pg"
    and e: "e < length (pg_path pg)"
    and ms: "length (pg_vertexMarkers pg) = length (pg_path pg)"
  shows "\<exists>pg'. polygons (polygonClick k (Some e) None (Some p) st) (fieldPolygons st ! k) = Some pg' \<and>
           pg_path pg' = take (e + 1) (pg_path pg) @ [p] @ drop (e + 1) (pg_path pg) \<and>
           length (pg_path pg') = length (pg_path pg) + 1 \<and>
           pg_path pg' ! (e + 1) = p \<and>
           length (pg_vertexMarkers pg') = length (pg_path pg') \<and>
           pm_position (pg_vertexMarkers pg' ! (e + 1)) = p \<and>
           pm_id (pg_vertexMarkers pg' ! (e + 1)) \<in> onMap (polygonClick k (Some e) None (Some p) st)"
proof -
  let ?pid = "fieldPolygons st ! k"
  have i: "e + 1 \<le> length (pg_path pg)" using e by simp
  have click: "polygonClick k (Some e) None (Some p) st = pathInsertAt ?pid (e + 1) p st"
    using k by (simp add: polygonClick_def)
  let ?m = "\<lparr>pm_id = nextId st, pm_position = p, pm_index = e + 1\<rparr>"
  let ?pg' = "pg\<lparr>pg_path := splice_in (pg_path pg) (e + 1) p,
                  pg_vertexMarkers := splice_in (pg_vertexMarkers pg) (e + 1) ?m\<rparr>"
  have im: "e + 1 \<le> length (pg_vertexMarkers pg)" using i ms by simp
  have a: "polygons (pathInsertAt ?pid (e + 1) p st) ?pid = Some ?pg'"
    by (rule pathInsertAt_effect(1)[OF pg i])
  have b: "nextId st \<in> onMap (pathInsertAt ?pid (e + 1) p st)"
    by (rule pathInsertAt_effect(2)[OF pg i])
  have c: "pg_path ?pg' = take (e + 1) (pg_path pg) @ [p] @ drop (e + 1) (pg_path pg)"
    by (simp add: splice_in_def)
  have d: "pg_path ?pg' ! (e + 1) = p"
    using i by (simp add: splice_in_nth del: One_nat_def)
  have f: "pg_vertexMarkers ?pg' ! (e + 1) = ?m"
    using im by (simp add: splice_in_nth del: One_nat_def)
  have g: "length (pg_vertexMarkers ?pg') = length (pg_path ?pg')"
    using ms by simp
  have l: "length (pg_path ?pg') = length (pg_path pg) + 1"
    by simp
  show ?thesis
    unfolding click
    by (intro exI[of _ ?pg'] conjI a c d g l) (simp_all only: f PolygonMarker.simps b)
qed

lemma closedTriangle_polygon:
  "fieldPolygons closedTriangle = [16]"
  "polygons closedTriangle 16 =
     Some \<lparr>pg_path = [pt 0 0, pt 0 1, pt 1 1],
           pg_vertexMarkers = [\<lparr>pm_id = 17, pm_position = pt 0 0, pm_index = 0\<rparr>,
                               \<lparr>pm_id = 18, pm_position = pt 0 1, pm_index = 1\<rparr>,
                               \<lparr>pm_id = 19, pm_position = pt 1 1, pm_index = 2\<rparr>],
           pg_edgeMarkers = []\<rparr>"
  "nextId closedTriangle = 20"
  by (simp_all add: run_defs)

lemma edge_click_on_triangle:
  "0 < length (fieldPolygons closedTriangle) \<and>
   polygons closedTriangle (fieldPolygons closedTriangle ! 0) =
     Some \<lparr>pg_path = [pt 0 0, pt 0 1, pt 1 1],
           pg_vertexMarkers = [\<lparr>pm_id = 17, pm_position = pt 0 0, pm_index = 0\<rparr>,
                               \<lparr>pm_id = 18, pm_position = pt 0 1, pm_index = 1\<rparr>,
                               \<lparr>pm_id = 19, pm_position = pt 1 1, pm_index = 2\<rparr>],
           pg_edgeMarkers = []\<rparr> \<and>
   (\<exists>pg'. polygons (polygonClick 0 (Some 0) None (Some (pt 0 (1 / 2))) closedTriangle) 16 = Some pg' \<and>
      pg_path pg' = [pt 0 0, pt 0 (1 / 2), pt 0 1, pt 1 1] \<and>
      length (pg_path pg') = 4 \<and>
      length (pg_vertexMarkers pg') = 4 \<and>
      pm_position (pg_vertexMarkers pg' ! 1) = pt 0 (1 / 2))"
proof -
  let ?pg = "\<lparr>pg_path = [pt 0 0, pt 0 1, pt 1 1],
           pg_vertexMarkers = [\<lparr>pm_id = 17, pm_position = pt 0 0, pm_index = 0\<rparr>,
                               \<lparr>pm_id = 18, pm_position = pt 0 1, pm_index = 1\<rparr>,
                               \<lparr>pm_id = 19, pm_position = pt 1 1, pm_index = 2\<rparr>],
           pg_edgeMarkers = []\<rparr>"
  have k: "0 < length (fieldPolygons closedTriangle)" by (simp add: closedTriangle_polygon)
  have pg: "polygons closedTriangle (fieldPolygons closedTriangle ! 0) = Some ?pg"
    by (simp add: closedTriangle_polygon)
  have e: "0 < length (pg_path ?pg)" by simp
  have ms: "length (pg_vertexMarkers ?pg) = length (pg_path ?pg)" by simp
  from edge_click_inserts[OF k pg e ms, of "pt 0 (1 / 2)"] k pg
  show ?thesis by (auto simp: closedTriangle_polygon)
qed

lemma edgeClicked_polygon:
  "polygons edgeClicked 16 =
     Some \<lparr>pg_path = [pt 0 0, pt 0 (1 / 2), pt 0 1, pt 1 1],
           pg_vertexMarkers = [\<lparr>pm_id = 17, pm_position = pt 0 0, pm_index = 0\<rparr>,
                               \<lparr>pm_id = 20, pm_position = pt 0 (1 / 2), pm_index = 1\<rparr>,
                               \<lparr>pm_id = 18, pm_position = pt 0 1, pm_index = 1\<rparr>,
                               \<lparr>pm_id = 19, pm_position = pt 1 1, pm_index = 2\<rparr>],
           pg_edgeMarkers = []\<rparr>"
  by (simp add: edgeClicked_def polygonClick_def pathInsertAt_def splice_in_def Let_def
        closedTriangle_polygon)

text \<open>
  Claim C5 against the code. On the sample triangle \<open>[(0,0), (0,1), (1,1)]\<close> a click on
  edge 0 at \<open>(0, 0.5)\<close> puts the point into the path at index 1, the path then having
  four vertices, and a marker for it is put at index 1 of the vertex markers. The
  markers are not rebuilt: the two markers behind the new one keep the path index
  their drag listeners captured when they were made, so the indices of the four
  markers read \<open>0, 1, 1, 2\<close>. Dragging the marker that stands at \<open>(1,1)\<close>, the fourth, to
  \<open>(2,1)\<close> then writes path index 2, the vertex \<open>(0,1)\<close> of another marker, and leaves
  \<open>(1,1)\<close> in the path: markers and vertices no longer correspond.
\<close>

theorem C5_markers_not_rebuilt:
  "fieldPolygons closedTriangle = [16] \<and>
   getPath closedTriangle 16 = [pt 0 0, pt 0 1, pt 1 1] \<and>
   getPath edgeClicked 16 = [pt 0 0, pt 0 (1 / 2), pt 0 1, pt 1 1] \<and>
   map_option (map pm_position \<circ> pg_vertexMarkers) (polygons edgeClicked 16) =
     Some [pt 0 0, pt 0 (1 / 2), pt 0 1, pt 1 1] \<and>
   map_option (map pm_index \<circ> pg_vertexMarkers) (polygons edgeClicked 16) = Some [0, 1, 1, 2] \<and>
   (\<exists>st'. polygonMarkerDrag 16 3 (Some (pt 2 1)) edgeClicked = Inr st' \<and>
      getPath st' 16 = [pt 0 0, pt 0 (1 / 2), pt 2 1, pt 1 1] \<and>
      map_option (map pm_position \<circ> pg_vertexMarkers) (polygons st' 16) =
        Some [pt 0 0, pt 0 (1 / 2), pt 0 1, pt 2 1])"
proof -
  have "\<exists>st'. polygonMarkerDrag 16 3 (Some (pt 2 1)) edgeClicked = Inr st' \<and>
      getPath st' 16 = [pt 0 0, pt 0 (1 / 2), pt 2 1, pt 1 1] \<and>
      map_option (map pm_position \<circ> pg_vertexMarkers) (polygons st' 16) =
        Some [pt 0 0, pt 0 (1 / 2), pt 0 1, pt 2 1]"
    by (simp add: polygonMarkerDrag_def Let_def edgeClicked_polygon addEdgeMarkers_def getPath_def)
  then show ?thesis
    by (simp add: getPath_def closedTriangle_polygon edgeClicked_polygon)
qed

section \<open>Closing the ring\<close>

lemma mapDblClick_closes:
  assumes "3 \<le> length (vertices st)"
  shows "fieldPolygons (mapDblClick st) = fieldPolygons st @ [nextId st]"
    and "polygons (mapDblClick st) (nextId st) =
           Some \<lparr>pg_path = vertices st,
                 pg_vertexMarkers =
                   map (\<lambda>i. \<lparr>pm_id = nextId st + 1 + i, pm_position = vertices st ! i, pm_index = i\<rparr>)
                     [0..<length (vertices st)],
                 pg_edgeMarkers = []\<rparr>"
    and "onMap (mapDblClick st) =
           (insert (nextId st) (onMap st)
              - (case tempPolyline st of None \<Rightarrow> {} | Some pl \<Rightarrow> {pl_id pl})
              - marker_id ` set (vertexMarkers st) - edge_id ` set (edgeMarkers st))
           \<union> {nextId st + 1..<nextId st + 1 + length (vertices st)}"
    and "mapListeners (mapDblClick st) =
           removeListener (mapDblClickListener st) (removeListener (mapClickListener st) (mapListeners st))"
    and "tempPolyline (mapDblClick st) = None"
    and "vertexMarkers (mapDblClick st) = []"
    and "edgeMarkers (mapDblClick st) = []"
    and "mapClickListener (mapDblClick st) = None"
    and "mapDblClickListener (mapDblClick st) = None"
    and "isDrawingMode (mapDblClick st) = False"
  using assms
  by (simp_all add: mapDblClick_def onPolygonComplete_def addEdgeMarkers_def Let_def
        split: option.splits)

text \<open>
  Claim C3. A double-click on the map while at least three vertices are drawn creates
  a polygon whose path is the current vertex list, puts it on the map and appends it
  to \<open>fieldPolygons\<close>; the temporary polyline, every vertex marker and edge marker
  of the session and the two map listeners are taken away, and drawing mode ends.
  With fewer than three vertices the double-click leaves the state as it is.
\<close>

theorem C3_double_click:
  assumes "idsFresh st"
  shows "(3 \<le> length (vertices st) \<longrightarrow>
            fieldPolygons (mapDblClick st) = fieldPolygons st @ [nextId st] \<and>
            map_option pg_path (polygons (mapDblClick st) (nextId st)) = Some (vertices st) \<and>
            nextId st \<in> onMap (mapDblClick st) \<and>
            tempPolyline (mapDblClick st) = None \<and>
            vertexMarkers (mapDblClick st) = [] \<and>
            edgeMarkers (mapDblClick st) = [] \<and>
            mapClickListener (mapDblClick st) = None \<and>
            mapDblClickListener (mapDblClick st) = None \<and>
            isDrawingMode (mapDblClick st) = False \<and>
            disposed st (mapDblClick st)) \<and>
         (length (vertices st) < 3 \<longrightarrow> mapDblClick st = st)"
proof (intro conjI impI)
  assume "length (vertices st) < 3"
  then show "mapDblClick st = st" by (simp add: mapDblClick_def)
next
  assume n: "3 \<le> length (vertices st)"
  note c = mapDblClick_closes[OF n]
  show "fieldPolygons (mapDblClick st) = fieldPolygons st @ [nextId st]" by (rule c(1))
  show "map_option pg_path (polygons (mapDblClick st) (nextId st)) = Some (vertices st)"
    by (simp add: c(2))
  have pl: "\<And>pl. tempPolyline st = Some pl \<Longrightarrow> pl_id pl < nextId st"
    and vm: "\<And>m. m \<in> set (vertexMarkers st) \<Longrightarrow> marker_id m < nextId st"
    and em: "\<And>e. e \<in> set (edgeMarkers st) \<Longrightarrow> edge_id e < nextId st"
    using assms by (auto simp: idsFresh_def list_all_iff)
  show "nextId st \<in> onMap (mapDblClick st)"
    unfolding c(3) using pl vm em by (fastforce split: option.splits)
  show "tempPolyline (mapDblClick st) = None" by (rule c(5))
  show "vertexMarkers (mapDblClick st) = []" by (rule c(6))
  show "edgeMarkers (mapDblClick st) = []" by (rule c(7))
  show "mapClickListener (mapDblClick st) = None" by (rule c(8))
  show "mapDblClickListener (mapDblClick st) = None" by (rule c(9))
  show "isDrawingMode (mapDblClick st) = False" by (rule c(10))
  show "disposed st (mapDblClick st)"
    unfolding disposed_def c(3) c(4) list_all_iff removeListener_def
    using pl vm em by (fastforce split: option.splits)
qed

lemma twoClicks_vertices: "vertices twoClicks = [pt 0 0, pt 0 1]"
  by (simp add: run_defs)

lemma threeClicks_vertices: "vertices threeClicks = [pt 0 0, pt 0 1, pt 1 1]"
  by (simp add: run_defs)

lemma idsFresh_twoClicks: "idsFresh twoClicks"
  by (simp add: idsFresh_def run_defs)

lemma idsFresh_threeClicks: "idsFresh threeClicks"
  by (simp add: idsFresh_def run_defs)

theorem C3_double_click_witness:
  "idsFresh threeClicks \<and> 3 \<le> length (vertices threeClicks) \<and>
   fieldPolygons (mapDblClick threeClicks) = [16] \<and>
   map_option pg_path (polygons (mapDblClick threeClicks) 16) = Some [pt 0 0, pt 0 1, pt 1 1] \<and>
   disposed threeClicks (mapDblClick threeClicks) \<and>
   idsFresh twoClicks \<and> length (vertices twoClicks) < 3 \<and> mapDblClick twoClicks = twoClicks"
proof -
  have n3: "nextId threeClicks = 16" "fieldPolygons threeClicks = []"
    by (simp_all add: run_defs)
  from C3_double_click[OF idsFresh_threeClicks] C3_double_click[OF idsFresh_twoClicks]
    idsFresh_threeClicks idsFresh_twoClicks
  show ?thesis by (simp add: threeClicks_vertices twoClicks_vertices n3)
qed

text \<open>
  The freshness of identities assumed above holds when a session starts and is kept
  by every click and every rebuild of the edge markers.
\<close>

lemma updateEdgeMarkers_nextId:
  "nextId (updateEdgeMarkers d st) = nextId st + 2 * edgeCount (length (vertices st))"
  by (simp add: updateEdgeMarkers_def Let_def edgeCount_def)

lemma edgePair_ids:
  "e \<in> set (edgePair d vs b i) \<Longrightarrow> edge_id e = b + 2 * i \<or> edge_id e = b + 2 * i + 1"
  by (auto simp: edgePair_def Let_def)

lemma idsFresh_updateEdgeMarkers:
  assumes "idsFresh st"
  shows "idsFresh (updateEdgeMarkers d st)"
proof -
  have e: "\<And>e. e \<in> set (edgeMarkers (updateEdgeMarkers d st)) \<Longrightarrow>
              edge_id e < nextId st + 2 * edgeCount (length (vertices st))"
  proof -
    fix e assume "e \<in> set (edgeMarkers (updateEdgeMarkers d st))"
    then obtain i where i: "i < length (vertices st)" "2 \<le> length (vertices st)"
        and m: "e \<in> set (edgePair d (vertices st) (nextId st) i)"
      by (auto simp: updateEdgeMarkers_edgeMarkers split: if_splits)
    from edgePair_ids[OF m] i
    show "edge_id e < nextId st + 2 * edgeCount (length (vertices st))"
      by (auto simp: edgeCount_def)
  qed
  show ?thesis
    using assms e
    by (auto simp: idsFresh_def updateEdgeMarkers_nextId list_all_iff split: option.splits)
qed

lemma idsFresh_setPath: "idsFresh st \<Longrightarrow> idsFresh (setPath p st)"
  by (auto simp: idsFresh_def setPath_def split: option.splits)

lemma idsFresh_startDrawing: "idsFresh (startDrawing st)"
  by (simp add: idsFresh_def startDrawing_def)

lemma idsFresh_mapClick:
  assumes "idsFresh st"
  shows "idsFresh (mapClick d e st)"
proof (cases "e = None \<or> tempPolyline st = None")
  case True
  then show ?thesis using assms by (auto simp: mapClick_def split: option.splits)
next
  case False
  then obtain p where e: "e = Some p" and t: "tempPolyline st \<noteq> None" by auto
  let ?st1 = "st\<lparr>nextId := nextId st + 1, onMap := insert (nextId st) (onMap st),
                  vertices := vertices st @ [p],
                  vertexMarkers := vertexMarkers st @ [\<lparr>marker_id = nextId st, position = p\<rparr>]\<rparr>"
  have "idsFresh ?st1"
    using assms by (auto simp: idsFresh_def list_all_iff split: option.splits)
  then have "idsFresh (updateEdgeMarkers d (setPath (closedPath (vertices st @ [p])) ?st1))"
    by (intro idsFresh_updateEdgeMarkers idsFresh_setPath)
  then show ?thesis using e t by (auto simp: mapClick_def Let_def)
qed

section \<open>Counting markers\<close>

lemma handleAt_threeClicks: "handleAt threeClicks 1 = Some firstHandle"
  by (simp add: handleAt_def firstHandle_def run_defs)

lemma twoClicks_session:
  "tempPolyline twoClicks \<noteq> None"
  "length (vertexMarkers twoClicks) = 2"
  "length (edgeMarkers twoClicks) = 4"
  "length (filter isHandle (edgeMarkers twoClicks)) = 2"
  "length (filter isOverlay (edgeMarkers twoClicks)) = 2"
  by (simp_all add: run_defs)

lemma threeClicks_session:
  "tempPolyline threeClicks \<noteq> None"
  "length (vertexMarkers threeClicks) = 3"
  "length (edgeMarkers threeClicks) = 6"
  "length (filter isHandle (edgeMarkers threeClicks)) = 3"
  "length (filter isOverlay (edgeMarkers threeClicks)) = 3"
  by (simp_all add: run_defs)

lemma ringEdges_edgeCount: "n \<noteq> 2 \<Longrightarrow> edgeCount n = ringEdges n"
  by (auto simp: edgeCount_def ringEdges_def)

lemma edgeMarkersMatch_update: "edgeMarkersMatch (updateEdgeMarkers d st)"
  by (simp add: edgeMarkersMatch_def updateEdgeMarkers_counts ringEdges_edgeCount)

lemma edgeMarkersMatch_mapClick:
  "tempPolyline st \<noteq> None \<Longrightarrow> edgeMarkersMatch (mapClick d (Some p) st)"
  by (auto simp: mapClick_def Let_def edgeMarkersMatch_update)

lemma drag_sequence_adds_one:
  assumes h: "handleAt st k = Some h" and i: "mm_edge h < length (vertices st)"
  shows "\<exists>st'. midpointDragEnd d k (Some q) (midpointDragStart k st) = Inr st' \<and>
           vertices st' = splice_in (vertices st) (mm_edge h + 1) q \<and>
           length (vertexMarkers st') = length (vertexMarkers st) + 1 \<and>
           edgeMarkersMatch st'"
proof -
  let ?s1 = "midpointDragStart k st"
  let ?h1 = "h\<lparr>mm_dragMarker := Some \<lparr>marker_id = nextId st, position = mm_position h\<rparr>,
                   mm_opacity := 0,
                   mm_originalPosition := Some (mm_position h),
                   mm_originalVertices := Some (vertices st),
                   mm_tempVertexIndex := Some (mm_edge h + 1)\<rparr>"
  have a: "handleAt ?s1 k = Some ?h1" by (rule midpointDragStart_effect(3)[OF h])
  have b: "mm_tempVertexIndex ?h1 = Some (mm_edge h + 1)" by simp
  have v1: "vertices ?s1 = splice_in (vertices st) (mm_edge h + 1) (mm_position h)"
    by (rule midpointDragStart_effect(1)[OF h])
  have m1: "vertexMarkers ?s1 = vertexMarkers st"
    by (rule midpointDragStart_effect(2)[OF h])
  have c: "mm_edge h + 1 < length (vertices ?s1)" using i by (simp add: v1)
  from midpointDragEnd_promotes[OF a b c, of d q]
  obtain st' where r: "midpointDragEnd d k (Some q) ?s1 = Inr st'"
    and v: "vertices st' = (vertices ?s1)[mm_edge h + 1 := q]"
    and m: "vertexMarkers st' = splice_in (vertexMarkers ?s1) (mm_edge h + 1) \<lparr>marker_id = nextId ?s1, position = q\<rparr>"
    and e: "length (edgeMarkers st') = 2 * edgeCount (length (vertices ?s1))"
           "length (filter isOverlay (edgeMarkers st')) = edgeCount (length (vertices ?s1))"
           "length (filter isHandle (edgeMarkers st')) = edgeCount (length (vertices ?s1))"
    by blast
  have v': "vertices st' = splice_in (vertices st) (mm_edge h + 1) q"
    using i by (simp add: v v1 splice_in_update)
  have len: "length (vertices st') = length (vertices ?s1)" by (simp add: v)
  have "edgeMarkersMatch st'"
    unfolding edgeMarkersMatch_def e len using ringEdges_edgeCount by simp
  moreover have "length (vertexMarkers st') = length (vertexMarkers st) + 1"
    by (simp add: m m1)
  ultimately show ?thesis using r v' by blast
qed

text \<open>
  Claim C1 as stated fails while the ring is open. After two clicks of the sample
  run the session is drawing, with two vertices, and holds two handles and two
  labels, four entries in \<open>edgeMarkers\<close>, where the specification counts one edge;
  after the third click it holds three handles and three labels, six entries, where
  the specification counts two edges for an open ring of three vertices.
\<close>

theorem C1_open_ring_counterexample:
  "tempPolyline twoClicks \<noteq> None \<and>
   length (vertices twoClicks) = 2 \<and>
   length (filter isHandle (edgeMarkers twoClicks)) \<noteq> spec_edgeCount False (length (vertices twoClicks)) \<and>
   length (filter isOverlay (edgeMarkers twoClicks)) \<noteq> spec_edgeCount False (length (vertices twoClicks)) \<and>
   length (edgeMarkers twoClicks) \<noteq> spec_edgeCount False (length (vertices twoClicks)) \<and>
   tempPolyline threeClicks \<noteq> None \<and>
   length (vertices threeClicks) = 3 \<and>
   length (filter isHandle (edgeMarkers threeClicks)) \<noteq> spec_edgeCount False (length (vertices threeClicks)) \<and>
   length (filter isOverlay (edgeMarkers threeClicks)) \<noteq> spec_edgeCount False (length (vertices threeClicks)) \<and>
   length (edgeMarkers threeClicks) \<noteq> spec_edgeCount False (length (vertices threeClicks))"
  by (simp add: twoClicks_session twoClicks_vertices threeClicks_session threeClicks_vertices
        spec_edgeCount_def)

text \<open>
  Claim C1, amended. Every structural change of the drawing session that is handled
  to completion adds exactly one vertex marker with the one vertex it adds, and a
  rebuild of the edge markers adds neither: a rebuild keeps the vertices and the vertex
  markers; a map click while drawing appends the clicked point and one marker; the drag
  of a midpoint handle of edge \<open>i\<close>, from drag-start to a drag-end that carries a
  geo-point \<open>q\<close>, puts \<open>q\<close> in at index \<open>i + 1\<close> and adds one marker. So the vertex markers
  are as many as the vertices after such a change exactly when they were before it.
  After each of the three the session holds one label and one handle per edge, two
  entries of \<open>edgeMarkers\<close> per edge, where a ring of three or more vertices has as many
  edges as vertices, the last edge leading back to the first vertex, and a ring of one
  vertex or none has no edge; of a ring of exactly two vertices nothing is said. On a
  finished polygon an edge click adds one vertex and one vertex marker; of the edge
  markers of a finished polygon nothing is said.
\<close>

theorem C1_marker_counts:
  "(length (vertices (updateEdgeMarkers d st)) = length (vertices st) \<and>
    length (vertexMarkers (updateEdgeMarkers d st)) = length (vertexMarkers st) \<and>
    edgeMarkersMatch (updateEdgeMarkers d st)) \<and>
   (tempPolyline st \<noteq> None \<longrightarrow>
      vertices (mapClick d (Some p) st) = vertices st @ [p] \<and>
      length (vertexMarkers (mapClick d (Some p) st)) = length (vertexMarkers st) + 1 \<and>
      edgeMarkersMatch (mapClick d (Some p) st)) \<and>
   (\<forall>h. handleAt st k = Some h \<and> mm_edge h < length (vertices st) \<longrightarrow>
      (\<exists>st'. midpointDragEnd d k (Some q) (midpointDragStart k st) = Inr st' \<and>
         vertices st' = splice_in (vertices st) (mm_edge h + 1) q \<and>
         length (vertexMarkers st') = length (vertexMarkers st) + 1 \<and>
         edgeMarkersMatch st')) \<and>
   (\<forall>pg. j < length (fieldPolygons st) \<and> polygons st (fieldPolygons st ! j) = Some pg \<and>
         e < length (pg_path pg) \<longrightarrow>
      (\<exists>pg'. polygons (polygonClick j (Some e) None (Some p) st) (fieldPolygons st ! j) = Some pg' \<and>
         length (pg_path pg') = length (pg_path pg) + 1 \<and>
         length (pg_vertexMarkers pg') = length (pg_vertexMarkers pg) + 1))"
proof (intro conjI impI allI)
  show "length (vertices (updateEdgeMarkers d st)) = length (vertices st)" by simp
  show "length (vertexMarkers (updateEdgeMarkers d st)) = length (vertexMarkers st)" by simp
  show "edgeMarkersMatch (updateEdgeMarkers d st)" by (rule edgeMarkersMatch_update)
  {
    assume t: "tempPolyline st \<noteq> None"
    show "vertices (mapClick d (Some p) st) = vertices st @ [p]" using t by (rule mapClick_appends)
    show "length (vertexMarkers (mapClick d (Some p) st)) = length (vertexMarkers st) + 1"
      using t by (simp add: mapClick_appends)
    show "edgeMarkersMatch (mapClick d (Some p) st)" using t by (rule edgeMarkersMatch_mapClick)
  }
  {
    fix h
    assume "handleAt st k = Some h \<and> mm_edge h < length (vertices st)"
    then show "\<exists>st'. midpointDragEnd d k (Some q) (midpointDragStart k st) = Inr st' \<and>
         vertices st' = splice_in (vertices st) (mm_edge h + 1) q \<and>
         length (vertexMarkers st') = length (vertexMarkers st) + 1 \<and>
         edgeMarkersMatch st'"
      using drag_sequence_adds_one[of st k h d q] by blast
  }
next
  fix pg
  assume a: "j < length (fieldPolygons st) \<and> polygons st (fieldPolygons st ! j) = Some pg \<and>
         e < length (pg_path pg)"
  let ?pid = "fieldPolygons st ! j"
  have click: "polygonClick j (Some e) None (Some p) st = pathInsertAt ?pid (e + 1) p st"
    using a by (simp add: polygonClick_def)
  have i: "e + 1 \<le> length (pg_path pg)" using a by simp
  have pg: "polygons st ?pid = Some pg" using a by simp
  show "\<exists>pg'. polygons (polygonClick j (Some e) None (Some p) st) ?pid = Some pg' \<and>
         length (pg_path pg') = length (pg_path pg) + 1 \<and>
         length (pg_vertexMarkers pg') = length (pg_vertexMarkers pg) + 1"
    unfolding click pathInsertAt_effect(1)[OF pg i] by simp
qed

lemma closedTriangle_path:
  "polygons closedTriangle (fieldPolygons closedTriangle ! 0) =
     Some \<lparr>pg_path = [pt 0 0, pt 0 1, pt 1 1],
           pg_vertexMarkers = [\<lparr>pm_id = 17, pm_position = pt 0 0, pm_index = 0\<rparr>,
                               \<lparr>pm_id = 18, pm_position = pt 0 1, pm_index = 1\<rparr>,
                               \<lparr>pm_id = 19, pm_position = pt 1 1, pm_index = 2\<rparr>],
           pg_edgeMarkers = []\<rparr>"
  by (simp add: closedTriangle_polygon)

theorem C1_marker_counts_witness:
  "length (vertices threeClicks) = 3 \<and> length (vertexMarkers threeClicks) = 3 \<and>
   tempPolyline threeClicks \<noteq> None \<and>
   handleAt threeClicks 1 = Some firstHandle \<and>
   mm_edge firstHandle < length (vertices threeClicks) \<and>
   length (vertices (updateEdgeMarkers sampleDistance threeClicks)) \<noteq> 2 \<and>
   length (vertexMarkers (updateEdgeMarkers sampleDistance threeClicks)) = 3 \<and>
   length (filter isHandle (edgeMarkers (updateEdgeMarkers sampleDistance threeClicks))) = 3 \<and>
   length (filter isOverlay (edgeMarkers (updateEdgeMarkers sampleDistance threeClicks))) = 3 \<and>
   length (vertices (mapClick sampleDistance (Some (pt 1 0)) threeClicks)) \<noteq> 2 \<and>
   length (vertexMarkers (mapClick sampleDistance (Some (pt 1 0)) threeClicks)) = 4 \<and>
   length (filter isHandle (edgeMarkers (mapClick sampleDistance (Some (pt 1 0)) threeClicks))) = 4 \<and>
   (\<exists>st'. midpointDragEnd sampleDistance 1 (Some (pt (-1) (1 / 2))) (midpointDragStart 1 threeClicks) = Inr st' \<and>
      vertices st' = [pt 0 0, pt (-1) (1 / 2), pt 0 1, pt 1 1] \<and>
      length (vertices st') \<noteq> 2 \<and>
      length (vertexMarkers st') = 4 \<and>
      length (filter isHandle (edgeMarkers st')) = 4 \<and>
      length (edgeMarkers st') = 8) \<and>
   0 < length (fieldPolygons closedTriangle) \<and>
   (\<exists>pg'. polygons (polygonClick 0 (Some 0) None (Some (pt 1 0)) closedTriangle) 16 = Some pg' \<and>
      length (pg_path pg') = 4 \<and> length (pg_vertexMarkers pg') = 4)"
proof -
  have t: "tempPolyline threeClicks \<noteq> None" by (rule threeClicks_session)
  have i: "mm_edge firstHandle < length (vertices threeClicks)"
    by (simp add: firstHandle_def threeClicks_vertices)
  have k: "0 < length (fieldPolygons closedTriangle)" by (simp add: closedTriangle_polygon)
  have sp: "splice_in (vertices threeClicks) (mm_edge firstHandle + 1) (pt (-1) (1 / 2)) =
              [pt 0 0, pt (-1) (1 / 2), pt 0 1, pt 1 1]"
    by (simp add: splice_in_def firstHandle_def threeClicks_vertices)
  note T = C1_marker_counts[of sampleDistance threeClicks "pt 1 0" 1 "pt (-1) (1 / 2)" 0 0]
  have a: "length (vertices (updateEdgeMarkers sampleDistance threeClicks)) \<noteq> 2 \<and>
      length (vertexMarkers (updateEdgeMarkers sampleDistance threeClicks)) = 3 \<and>
      length (filter isHandle (edgeMarkers (updateEdgeMarkers sampleDistance threeClicks))) = 3 \<and>
      length (filter isOverlay (edgeMarkers (updateEdgeMarkers sampleDistance threeClicks))) = 3"
    using T[THEN conjunct1]
    by (simp add: edgeMarkersMatch_def ringEdges_def threeClicks_vertices threeClicks_session)
  have b: "length (vertices (mapClick sampleDistance (Some (pt 1 0)) threeClicks)) \<noteq> 2 \<and>
      length (vertexMarkers (mapClick sampleDistance (Some (pt 1 0)) threeClicks)) = 4 \<and>
      length (filter isHandle (edgeMarkers (mapClick sampleDistance (Some (pt 1 0)) threeClicks))) = 4"
    using T[THEN conjunct2, THEN conjunct1] t
    by (simp add: edgeMarkersMatch_def ringEdges_def threeClicks_vertices threeClicks_session)
  have c: "\<exists>st'. midpointDragEnd sampleDistance 1 (Some (pt (-1) (1 / 2))) (midpointDragStart 1 threeClicks) = Inr st' \<and>
      vertices st' = [pt 0 0, pt (-1) (1 / 2), pt 0 1, pt 1 1] \<and>
      length (vertices st') \<noteq> 2 \<and>
      length (vertexMarkers st') = 4 \<and>
      length (filter isHandle (edgeMarkers st')) = 4 \<and>
      length (edgeMarkers st') = 8"
  proof -
    from T[THEN conjunct2, THEN conjunct2, THEN conjunct1] handleAt_threeClicks i
    obtain st' where r: "midpointDragEnd sampleDistance 1 (Some (pt (-1) (1 / 2))) (midpointDragStart 1 threeClicks) = Inr st'"
      and v: "vertices st' = splice_in (vertices threeClicks) (mm_edge firstHandle + 1) (pt (-1) (1 / 2))"
      and m: "length (vertexMarkers st') = length (vertexMarkers threeClicks) + 1"
      and e: "edgeMarkersMatch st'"
      by blast
    have v': "vertices st' = [pt 0 0, pt (-1) (1 / 2), pt 0 1, pt 1 1]" using v sp by simp
    have n: "length (vertices st') = 4" by (simp add: v')
    have "length (filter isHandle (edgeMarkers st')) = 4 \<and> length (edgeMarkers st') = 8"
      using e by (simp add: edgeMarkersMatch_def ringEdges_def n)
    then show ?thesis using r v' n m by (simp add: threeClicks_session)
  qed
  from C1_marker_counts[of sampleDistance closedTriangle "pt 1 0" 1 "pt (-1) (1 / 2)" 0 0,
      THEN conjunct2, THEN conjunct2, THEN conjunct2] k closedTriangle_path
  have d: "\<exists>pg'. polygons (polygonClick 0 (Some 0) None (Some (pt 1 0)) closedTriangle) 16 = Some pg' \<and>
      length (pg_path pg') = 4 \<and> length (pg_vertexMarkers pg') = 4"
    by (auto simp: closedTriangle_polygon)
  show ?thesis
    using a b c d t handleAt_threeClicks i k threeClicks_vertices threeClicks_session(2) by simp
qed

section \<open>Editing the length of an edge\<close>



lemma ratio_of_zero_length:
  "js_mul (Fin 0) (js_div L (Fin 0)) = NaN"
  by (cases L) (simp_all add: signed_inf_def)

lemma degenerate_newPosition:
  "js_add (Fin a) (js_mul (js_sub (Fin a) (Fin a)) (js_div L (Fin 0))) = NaN"
  by (simp add: js_sub_def ratio_of_zero_length)

lemma degenerate_edge_moves_vertex:
  assumes ov: "overlayAt st k = Some ov"
    and same: "ov_p1 ov = \<lparr>lat = Fin a, lng = Fin b\<rparr>" "ov_p2 ov = \<lparr>lat = Fin a, lng = Fin b\<rparr>"
    and zero: "d (ov_p1 ov) (ov_p2 ov) = Fin 0"
    and vs: "vertices st \<noteq> []"
    and vm: "(ov_edge ov + 1) mod length (vertices st) < length (vertexMarkers st)"
  shows "\<exists>st'. handleDistanceChange d k L st = Inr st' \<and>
           vertices st' = (vertices st)[(ov_edge ov + 1) mod length (vertices st) := \<lparr>lat = NaN, lng = NaN\<rparr>]"
  using ov vs vm zero[unfolded same]
  by (simp add: handleDistanceChange_def Let_def same degenerate_newPosition)

lemma sameSpotTwice_label:
  "overlayAt sameSpotTwice 0 =
     Some \<lparr>ov_id = 5, ov_position = pt 0 0, ov_content = ''0m'', ov_angle = Fin 0,
           ov_edge = 0, ov_p1 = pt 0 0, ov_p2 = pt 0 0\<rparr>"
  by (simp add: overlayAt_def run_defs)

lemma sameSpotTwice_session:
  "vertices sameSpotTwice = [pt 0 0, pt 0 0]"
  "map position (vertexMarkers sameSpotTwice) = [pt 0 0, pt 0 0]"
  by (simp_all add: run_defs)

text \<open>
  Claim C2 against the code. Two clicks on the same spot give an edge whose endpoints
  coincide, of length 0. Submitting 5 meters on its label returns normally, and the
  far vertex and its marker have moved to \<open>(NaN, NaN)\<close>: the ratio is \<open>5 / 0\<close>,
  infinite, and \<open>0\<close> times it is not a number.
\<close>

theorem C2_degenerate_edge_mutates:
  "map_option ov_p1 (overlayAt sameSpotTwice 0) = Some (pt 0 0) \<and>
   map_option ov_p2 (overlayAt sameSpotTwice 0) = Some (pt 0 0) \<and>
   sampleDistance (pt 0 0) (pt 0 0) = Fin 0 \<and>
   vertices sameSpotTwice = [pt 0 0, pt 0 0] \<and>
   (\<exists>st'. handleDistanceChange sampleDistance 0 (Fin 5) sameSpotTwice = Inr st' \<and>
      vertices st' = [pt 0 0, \<lparr>lat = NaN, lng = NaN\<rparr>] \<and>
      map position (vertexMarkers st') = [pt 0 0, \<lparr>lat = NaN, lng = NaN\<rparr>])"
proof -
  have d0: "sampleDistance (pt 0 0) (pt 0 0) = Fin 0"
    by (simp add: sampleDistance_def finitePoint_def pt_def)
  have vm: "vertexMarkers sameSpotTwice =
      [\<lparr>marker_id = 3, position = pt 0 0\<rparr>, \<lparr>marker_id = 4, position = pt 0 0\<rparr>]"
    by (simp add: run_defs)
  have "\<exists>st'. handleDistanceChange sampleDistance 0 (Fin 5) sameSpotTwice = Inr st' \<and>
      vertices st' = [pt 0 0, \<lparr>lat = NaN, lng = NaN\<rparr>] \<and>
      map position (vertexMarkers st') = [pt 0 0, \<lparr>lat = NaN, lng = NaN\<rparr>]"
    by (simp add: handleDistanceChange_def Let_def sameSpotTwice_label sameSpotTwice_session vm
          d0[unfolded pt_def] js_sub_def signed_inf_def pt_def)
  then show ?thesis
    using d0 by (simp add: sameSpotTwice_label sameSpotTwice_session)
qed

section \<open>The round trip of a distance edit\<close>




















section \<open>A handle drag that ends without a geo-point\<close>

lemma midpointDragEnd_None_keeps_vertices:
  "midpointDragEnd d k None st = Inr st' \<Longrightarrow>
     vertices st' = vertices st \<and> vertexMarkers st' = vertexMarkers st"
  by (auto simp: midpointDragEnd_def Let_def setHandle_def split: option.splits)

lemma abandoned_drag_keeps_vertex:
  assumes "handleAt st k = Some h"
  shows "\<exists>st'. midpointDragEnd d k None (midpointDragStart k st) = Inr st' \<and>
           vertices st' = splice_in (vertices st) (mm_edge h + 1) (mm_position h) \<and>
           vertexMarkers st' = vertexMarkers st"
proof -
  note s = midpointDragStart_effect[OF assms]
  from midpointDragEnd_without_point[OF s(3), of d]
  show ?thesis by (simp add: s(1) s(2))
qed

text \<open>
  Claim C6 against the code. With three vertices drawn, the handle of edge 0 is picked
  up and the drag ends with an event that carries no geo-point. The handler returns,
  the vertex inserted at drag-start is still in \<open>vertices\<close>, now four against three
  vertex markers, and a double-click then builds the polygon from all four.
\<close>

theorem C6_provisional_vertex_leaks:
  "handleAt threeClicks 1 = Some firstHandle \<and>
   vertices threeClicks = [pt 0 0, pt 0 1, pt 1 1] \<and>
   (\<exists>st'. midpointDragEnd sampleDistance 1 None (midpointDragStart 1 threeClicks) = Inr st' \<and>
      vertices st' = [pt 0 0, pt 0 (1 / 2), pt 0 1, pt 1 1] \<and>
      length (vertexMarkers st') = 3 \<and>
      map_option pg_path (polygons (mapDblClick st') (nextId st')) =
        Some [pt 0 0, pt 0 (1 / 2), pt 0 1, pt 1 1])"
proof -
  from abandoned_drag_keeps_vertex[OF handleAt_threeClicks, of sampleDistance]
  obtain st' where r: "midpointDragEnd sampleDistance 1 None (midpointDragStart 1 threeClicks) = Inr st'"
    and v: "vertices st' = splice_in (vertices threeClicks) (mm_edge firstHandle + 1) (mm_position firstHandle)"
    and m: "vertexMarkers st' = vertexMarkers threeClicks"
    by blast
  have v': "vertices st' = [pt 0 0, pt 0 (1 / 2), pt 0 1, pt 1 1]"
    by (simp add: v splice_in_def firstHandle_def threeClicks_vertices)
  have n: "3 \<le> length (vertices st')" by (simp add: v')
  have p: "map_option pg_path (polygons (mapDblClick st') (nextId st')) = Some (vertices st')"
    by (simp add: mapDblClick_closes(2)[OF n])
  show ?thesis
    using r v' p m handleAt_threeClicks threeClicks_vertices threeClicks_session(2) by simp
qed

section \<open>What the host is told\<close>

lemma addEdgeMarkers_fields [simp]:
  "fieldPolygons (addEdgeMarkers pid st) = fieldPolygons st"
  "areaUpdates (addEdgeMarkers pid st) = areaUpdates st"
  "isDrawingMode (addEdgeMarkers pid st) = isDrawingMode st"
  by (simp_all add: addEdgeMarkers_def split: option.splits)

lemma pathInsertAt_fields [simp]:
  "fieldPolygons (pathInsertAt pid i p st) = fieldPolygons st"
  "areaUpdates (pathInsertAt pid i p st) = areaUpdates st"
  "isDrawingMode (pathInsertAt pid i p st) = isDrawingMode st"
  by (simp_all add: pathInsertAt_def Let_def split: option.splits)

lemma polygonMarkerDrag_keeps_registry:
  "polygonMarkerDrag pid k e st = Inr st' \<Longrightarrow>
     fieldPolygons st' = fieldPolygons st \<and> isDrawingMode st' = isDrawingMode st \<and>
     areaUpdates st' = areaUpdates st"
  by (auto simp: polygonMarkerDrag_def Let_def split: option.splits if_splits)

lemma rerender_same_registry:
  "fieldPolygons st' = fieldPolygons st \<Longrightarrow> isDrawingMode st' = isDrawingMode st \<Longrightarrow>
     rerender computeArea st st' = st'"
  by (simp add: rerender_def)

lemma vertex_drag_not_reported:
  "polygonMarkerDrag pid k e st = Inr st' \<Longrightarrow>
     areaUpdates (rerender computeArea st st') = areaUpdates st"
  using polygonMarkerDrag_keeps_registry[of pid k e st st']
  by (simp add: rerender_same_registry)

lemma edge_click_not_reported:
  "areaUpdates (rerender computeArea st (polygonClick k edge vertex latLng st)) = areaUpdates st"
proof -
  have "fieldPolygons (polygonClick k edge vertex latLng st) = fieldPolygons st"
    and "isDrawingMode (polygonClick k edge vertex latLng st) = isDrawingMode st"
    and "areaUpdates (polygonClick k edge vertex latLng st) = areaUpdates st"
    by (simp_all add: polygonClick_def split: option.splits)
  then show ?thesis by (simp add: rerender_same_registry)
qed

lemma registration_reports_total:
  assumes "3 \<le> length (vertices st)" and "onAreaUpdate st"
  shows "areaUpdates (rerender computeArea st (mapDblClick st)) =
           areaUpdates st @ [totalArea computeArea (mapDblClick st)]"
proof -
  note c = mapDblClick_closes[OF assms(1)]
  have cb: "onAreaUpdate (mapDblClick st)" and au: "areaUpdates (mapDblClick st) = areaUpdates st"
    using assms
    by (simp_all add: mapDblClick_def onPolygonComplete_def addEdgeMarkers_def Let_def)
  show ?thesis
    by (simp add: rerender_def c(1) c(10) areaEffect_def cb au Let_def)
qed

lemma two_rings_of_one_hectare:
  assumes "fieldPolygons st = [p1, p2]"
    and "computeArea (getPath st p1) = Fin 10000" and "computeArea (getPath st p2) = Fin 10000"
  shows "totalArea computeArea st = Fin 2"
  using assms by (simp add: totalArea_def)

lemma closedTriangle_total:
  "areaUpdates closedTriangle = [Fin 616050]"
  "totalArea sampleArea closedTriangle = Fin 616050"
  by (simp_all add: run_defs)

text \<open>
  Claim C7 against the code. After the triangle of the sample run is registered the
  host has received its area in hectares. Dragging the marker of its third vertex to
  \<open>(2, 1)\<close> changes the path and doubles the total, and after React has rendered
  again the host has still received the first value only.
\<close>

theorem C7_vertex_drag_not_reported:
  "fieldPolygons closedTriangle = [16] \<and>
   getPath closedTriangle 16 = [pt 0 0, pt 0 1, pt 1 1] \<and>
   areaUpdates closedTriangle = [totalArea sampleArea closedTriangle] \<and>
   (\<exists>st'. polygonMarkerDrag 16 2 (Some (pt 2 1)) closedTriangle = Inr st' \<and>
      getPath (rerender sampleArea closedTriangle st') 16 = [pt 0 0, pt 0 1, pt 2 1] \<and>
      totalArea sampleArea (rerender sampleArea closedTriangle st') = Fin 1232100 \<and>
      totalArea sampleArea closedTriangle = Fin 616050 \<and>
      areaUpdates (rerender sampleArea closedTriangle st') = [Fin 616050])"
proof -
  have drag: "\<exists>st'. polygonMarkerDrag 16 2 (Some (pt 2 1)) closedTriangle = Inr st' \<and>
      fieldPolygons st' = [16] \<and> getPath st' 16 = [pt 0 0, pt 0 1, pt 2 1]"
    by (simp add: polygonMarkerDrag_def Let_def closedTriangle_polygon addEdgeMarkers_def getPath_def)
  then obtain st' where r: "polygonMarkerDrag 16 2 (Some (pt 2 1)) closedTriangle = Inr st'"
    and f: "fieldPolygons st' = [16]" and g: "getPath st' 16 = [pt 0 0, pt 0 1, pt 2 1]"
    by blast
  note k = polygonMarkerDrag_keeps_registry[OF r]
  have same: "rerender sampleArea closedTriangle st' = st'"
    using k by (simp add: rerender_same_registry)
  have t: "totalArea sampleArea st' = Fin 1232100"
    by (simp add: totalArea_def f g sampleArea_def finitePoint_def pt_def cross_def)
  have u: "areaUpdates st' = [Fin 616050]"
    using k closedTriangle_total by simp
  have p0: "getPath closedTriangle 16 = [pt 0 0, pt 0 1, pt 1 1]"
    by (simp add: getPath_def closedTriangle_polygon)
  show ?thesis
    using r g t u p0 by (simp add: same closedTriangle_total closedTriangle_polygon)
qed

end
